theory Spec2Isabelle
  imports Complex_Main
begin

section \<open>Python values\<close>

text \<open>
  A Python \<open>str\<close> is a sequence of Unicode code points; slicing and \<open>len\<close> count code
  points, so a string is a list of code points here. \<open>ascii\<close> embeds the ASCII literals
  of the source.
\<close>

type_synonym pystr = "nat list"

definition ascii :: "string \<Rightarrow> pystr" where
  "ascii s = map of_char s"

text \<open>
  The values that \<open>json.loads\<close> produces and \<open>json.dumps\<close> prints: \<open>None\<close>, booleans,
  numbers, strings, lists and dicts with string keys. A dict is an association list read
  with \<open>map_of\<close>.
\<close>

datatype json =
    JNull
  | JBool bool
  | JInt int
  | JFloat real
  | JStr pystr
  | JArr "json list"
  | JObj "(pystr \<times> json) list"

text \<open>
  Exceptions: every exception of the program derives from \<open>Exception\<close>, which is what
  both \<open>except Exception\<close> handlers catch. An exception carries its class and the text
  that \<open>str(e)\<close> returns. \<open>LibraryError\<close> stands for whatever a collaborator (embedding
  model, vector index, language model, file system, JSON parser) raises.
\<close>

datatype exc_class =
  Exception | KeyError | AttributeError | TypeError | ValueError | LibraryError

datatype py_exception = Raise exc_class pystr

fun str_exc :: "py_exception \<Rightarrow> pystr" where
  "str_exc (Raise c m) = m"

fun type_name :: "json \<Rightarrow> string" where
  "type_name JNull = ''NoneType''"
| "type_name (JBool b) = ''bool''"
| "type_name (JInt n) = ''int''"
| "type_name (JFloat x) = ''float''"
| "type_name (JStr s) = ''str''"
| "type_name (JArr xs) = ''list''"
| "type_name (JObj kvs) = ''dict''"

text \<open>The interpreter's own errors, with CPython's messages.\<close>

definition key_error :: "pystr \<Rightarrow> py_exception" where
  "key_error k = Raise KeyError (ascii [CHR 0x27] @ k @ ascii [CHR 0x27])"

definition attribute_error :: "json \<Rightarrow> string \<Rightarrow> py_exception" where
  "attribute_error v attr =
     Raise AttributeError
       (ascii ([CHR 0x27] @ type_name v @ [CHR 0x27] @ '' object has no attribute ''
               @ [CHR 0x27] @ attr @ [CHR 0x27]))"

definition not_subscriptable :: "json \<Rightarrow> py_exception" where
  "not_subscriptable v =
     Raise TypeError (ascii ([CHR 0x27] @ type_name v @ [CHR 0x27] @ '' object is not subscriptable''))"

definition not_iterable :: "json \<Rightarrow> py_exception" where
  "not_iterable v =
     Raise TypeError (ascii ([CHR 0x27] @ type_name v @ [CHR 0x27] @ '' object is not iterable''))"

definition unhashable :: "string \<Rightarrow> py_exception" where
  "unhashable t = Raise TypeError (ascii (''unhashable type: '' @ [CHR 0x27] @ t @ [CHR 0x27]))"

text \<open>\<open>d.get(key, default)\<close> on a dict whose keys are strings.\<close>

definition dict_get :: "(pystr \<times> json) list \<Rightarrow> pystr \<Rightarrow> json \<Rightarrow> json" where
  "dict_get kvs k d = (case map_of kvs k of Some v \<Rightarrow> v | None \<Rightarrow> d)"

text \<open>\<open>obj.get(key, default)\<close> on any value: only a dict has the method.\<close>

fun py_get :: "json \<Rightarrow> pystr \<Rightarrow> json \<Rightarrow> py_exception + json" where
  "py_get (JObj kvs) k d = Inr (dict_get kvs k d)"
| "py_get v k d = Inl (attribute_error v ''get'')"

text \<open>\<open>obj[key]\<close> with a string key.\<close>

fun py_getitem :: "json \<Rightarrow> pystr \<Rightarrow> py_exception + json" where
  "py_getitem (JObj kvs) k =
     (case map_of kvs k of Some v \<Rightarrow> Inr v | None \<Rightarrow> Inl (key_error k))"
| "py_getitem (JStr s) k = Inl (Raise TypeError (ascii ''string indices must be integers''))"
| "py_getitem (JArr xs) k =
     Inl (Raise TypeError (ascii ''list indices must be integers or slices, not str''))"
| "py_getitem v k = Inl (not_subscriptable v)"

text \<open>
  \<open>for msg in obj[-10:]\<close>: the elements the loop visits. A list gives its last ten
  elements (all of them when it has fewer), a string its last ten characters as
  one-character strings; a dict cannot be sliced and nothing else can be subscripted.
\<close>

fun slice_last10 :: "json \<Rightarrow> py_exception + json list" where
  "slice_last10 (JArr xs) = Inr (drop (length xs - 10) xs)"
| "slice_last10 (JStr s) = Inr (map (\<lambda>c. JStr [c]) (drop (length s - 10) s))"
| "slice_last10 (JObj kvs) = Inl (unhashable ''slice'')"
| "slice_last10 v = Inl (not_subscriptable v)"

text \<open>\<open>for item in obj\<close>: a dict iterates over its keys.\<close>

fun py_iter :: "json \<Rightarrow> py_exception + json list" where
  "py_iter (JArr xs) = Inr xs"
| "py_iter (JStr s) = Inr (map (\<lambda>c. JStr [c]) s)"
| "py_iter (JObj kvs) = Inr (map (\<lambda>kv. JStr (fst kv)) kvs)"
| "py_iter v = Inl (not_iterable v)"

text \<open>Decimal digits of a natural number (\<open>str(i)\<close> of a loop index).\<close>

function str_nat :: "nat \<Rightarrow> pystr" where
  "str_nat n = (if n < 10 then [48 + n] else str_nat (n div 10) @ [48 + n mod 10])"
  by pat_completeness auto
termination
  by (relation "measure id") auto

text \<open>\<open>sep.join(parts)\<close>.\<close>

fun py_join :: "pystr \<Rightarrow> pystr list \<Rightarrow> pystr" where
  "py_join sep [] = []"
| "py_join sep [x] = x"
| "py_join sep (x # y # ys) = x @ sep @ py_join sep (y # ys)"

section \<open>Collaborators\<close>

text \<open>A LangChain \<open>Document\<close>: the chunk text and its metadata dict.\<close>

record document =
  page_content :: pystr
  metadata :: "(pystr \<times> json) list"

datatype lc_message = HumanMessage pystr | AIMessage pystr

text \<open>
  The variables of the prompt template of \<open>_build_chain\<close>: what one generation request
  carries to the language model.
\<close>

record gen_request =
  context_text :: pystr
  question :: pystr
  language :: json
  chat_history :: "lc_message list"

text \<open>The two language-model clients of \<open>_init_llm\<close>: model name and token limit.\<close>

datatype llm = ChatGroq string nat | ChatGoogleGenerativeAI string nat

text \<open>A Chroma handle is its persist directory; the index itself lives outside.\<close>

datatype chroma = Chroma json

text \<open>
  Everything the service calls and does not define: Python builtins, the operating
  system, the text splitter, the embedding model, the vector index and the language
  model. \<open>'w\<close> is the state of the outside world (disk, network, index contents); an
  effectful collaborator takes it and returns it, with an exception or a value.
\<close>

record 'w env =
  py_str :: "json \<Rightarrow> pystr"
  str_strip :: "pystr \<Rightarrow> pystr"
  json_loads :: "pystr \<Rightarrow> py_exception + json"
  split_text :: "pystr \<Rightarrow> pystr list"
  hf_embeddings :: "string \<Rightarrow> 'w \<Rightarrow> (py_exception + unit) \<times> 'w"
  os_path_exists :: "json \<Rightarrow> 'w \<Rightarrow> (py_exception + bool) \<times> 'w"
  os_listdir :: "json \<Rightarrow> 'w \<Rightarrow> (py_exception + pystr list) \<times> 'w"
  open_json_load :: "json \<Rightarrow> 'w \<Rightarrow> (py_exception + json) \<times> 'w"
  chroma_open :: "json \<Rightarrow> 'w \<Rightarrow> (py_exception + unit) \<times> 'w"
  chroma_from_documents :: "document list \<Rightarrow> json \<Rightarrow> 'w \<Rightarrow> (py_exception + unit) \<times> 'w"
  llm_new :: "llm \<Rightarrow> 'w \<Rightarrow> (py_exception + unit) \<times> 'w"
  similarity_search :: "chroma \<Rightarrow> nat \<Rightarrow> pystr \<Rightarrow> 'w \<Rightarrow> (py_exception + document list) \<times> 'w"
  llm_generate :: "llm \<Rightarrow> gen_request \<Rightarrow> 'w \<Rightarrow> (py_exception + json) \<times> 'w"

text \<open>
  The calls to the retriever and to the language model are logged, in order and each
  with its outcome, next to the outside world.
\<close>

datatype event =
    RetrieverInvoke pystr "py_exception + document list"
  | LlmInvoke gen_request "py_exception + json"

record 'w world =
  ext :: 'w
  trace :: "event list"

type_synonym ('w, 'a) io = "'w world \<Rightarrow> (py_exception + 'a) \<times> 'w world"

definition return :: "'a \<Rightarrow> ('w, 'a) io" where
  "return x = (\<lambda>w. (Inr x, w))"

definition raise :: "py_exception \<Rightarrow> ('w, 'a) io" where
  "raise e = (\<lambda>w. (Inl e, w))"

definition lift :: "py_exception + 'a \<Rightarrow> ('w, 'a) io" where
  "lift r = (\<lambda>w. (r, w))"

text \<open>Sequencing: an exception skips the rest.\<close>

definition bind :: "('w, 'a) io \<Rightarrow> ('a \<Rightarrow> ('w, 'b) io) \<Rightarrow> ('w, 'b) io" where
  "bind m f = (\<lambda>w. case m w of (Inl e, w') \<Rightarrow> (Inl e, w') | (Inr x, w') \<Rightarrow> f x w')"

text \<open>\<open>try: m except Exception as e: h e\<close>.\<close>

definition try_except :: "('w, 'a) io \<Rightarrow> (py_exception \<Rightarrow> ('w, 'a) io) \<Rightarrow> ('w, 'a) io" where
  "try_except m h = (\<lambda>w. case m w of (Inl e, w') \<Rightarrow> h e w' | (Inr x, w') \<Rightarrow> (Inr x, w'))"

text \<open>A call into the outside world, which leaves the log alone.\<close>

definition external :: "('w \<Rightarrow> (py_exception + 'a) \<times> 'w) \<Rightarrow> ('w, 'a) io" where
  "external f = (\<lambda>w. case f (ext w) of (r, x) \<Rightarrow> (r, w\<lparr>ext := x\<rparr>))"

text \<open>A call into the outside world that is logged with its outcome.\<close>

definition logged ::
  "(py_exception + 'a \<Rightarrow> event) \<Rightarrow> ('w \<Rightarrow> (py_exception + 'a) \<times> 'w) \<Rightarrow> ('w, 'a) io" where
  "logged ev f = (\<lambda>w. case f (ext w) of (r, x) \<Rightarrow> (r, \<lparr>ext = x, trace = trace w @ [ev r]\<rparr>))"

text \<open>\<open>str(v)\<close> guarded by \<open>isinstance(v, str)\<close>, and \<open>f"{v}"\<close>: a string is itself.\<close>

definition to_text :: "'w env \<Rightarrow> json \<Rightarrow> pystr" where
  "to_text env v = (case v of JStr s \<Rightarrow> s | _ \<Rightarrow> py_str env v)"

text \<open>Sequencing of pure steps that may raise.\<close>

definition bind_exc :: "py_exception + 'a \<Rightarrow> ('a \<Rightarrow> py_exception + 'b) \<Rightarrow> py_exception + 'b" where
  "bind_exc r f = (case r of Inl e \<Rightarrow> Inl e | Inr x \<Rightarrow> f x)"

section \<open>The service: \<open>RAGChatService\<close>\<close>

text \<open>
  The attributes of an instance. The retriever is the vector index queried with
  \<open>k = 3\<close>; the chain is built from the retriever and the language model.
\<close>

record service =
  provider :: json
  careers_json_path :: json
  chroma_persist_dir :: json
  vectordb :: chroma
  llm :: llm
  retriever_k :: nat

text \<open>\<open>self.retriever.invoke(query)\<close>.\<close>

definition retriever_invoke :: "'w env \<Rightarrow> service \<Rightarrow> pystr \<Rightarrow> ('w, document list) io" where
  "retriever_invoke env svc query =
     logged (RetrieverInvoke query) (similarity_search env (vectordb svc) (retriever_k svc) query)"

text \<open>The language model at the end of the chain, on the filled-in prompt.\<close>

definition llm_invoke :: "'w env \<Rightarrow> service \<Rightarrow> gen_request \<Rightarrow> ('w, json) io" where
  "llm_invoke env svc req = logged (LlmInvoke req) (llm_generate env (llm svc) req)"

subsection \<open>\<open>_build_chain\<close>\<close>

definition format_doc :: "'w env \<Rightarrow> nat \<times> document \<Rightarrow> pystr" where
  "format_doc env p =
     ascii ''[Source '' @ str_nat (fst p) @ ascii '': ''
       @ to_text env (dict_get (metadata (snd p)) (ascii ''title'') (JStr (ascii ''Unknown'')))
       @ ascii '']'' @ [10] @ page_content (snd p)"

definition format_docs :: "'w env \<Rightarrow> document list \<Rightarrow> pystr" where
  "format_docs env docs =
     (if docs = [] then ascii ''No relevant information found.''
      else py_join ([10, 10] @ ascii ''---'' @ [10, 10])
             (map (format_doc env) (zip [1 ..< Suc (length docs)] docs)))"

definition get_context :: "'w env \<Rightarrow> service \<Rightarrow> pystr \<Rightarrow> ('w, pystr) io" where
  "get_context env svc q =
     bind (retriever_invoke env svc q) (\<lambda>docs. return (format_docs env docs))"

text \<open>
  \<open>self.chain.invoke(inputs)\<close>: the context is retrieved for the question, the prompt
  variables are filled in, and the language model answers.
\<close>

definition chain_invoke ::
  "'w env \<Rightarrow> service \<Rightarrow> pystr \<Rightarrow> lc_message list \<Rightarrow> json \<Rightarrow> ('w, json) io" where
  "chain_invoke env svc q history lang =
     bind (get_context env svc q)
       (\<lambda>ctx. llm_invoke env svc
          \<lparr>context_text = ctx, question = q, language = lang, chat_history = history\<rparr>)"

subsection \<open>\<open>chat\<close>\<close>

text \<open>
  The loop over \<open>chat_history[-10:]\<close>. \<open>msg["role"]\<close> is read for each comparison, as
  in the source.
\<close>

fun history_loop :: "'w env \<Rightarrow> json list \<Rightarrow> lc_message list \<Rightarrow> py_exception + lc_message list" where
  "history_loop env [] lc_history = Inr lc_history"
| "history_loop env (msg # rest) lc_history =
     bind_exc (py_get msg (ascii ''content'') (JStr []))
       (\<lambda>content0.
          let content = to_text env content0 in
          bind_exc (py_getitem msg (ascii ''role''))
            (\<lambda>role.
               if role = JStr (ascii ''user'')
               then history_loop env rest (lc_history @ [HumanMessage content])
               else bind_exc (py_getitem msg (ascii ''role''))
                 (\<lambda>role'.
                    if role' = JStr (ascii ''assistant'')
                    then history_loop env rest (lc_history @ [AIMessage content])
                    else history_loop env rest lc_history)))"

definition convert_history :: "'w env \<Rightarrow> json \<Rightarrow> py_exception + lc_message list" where
  "convert_history env history =
     bind_exc (slice_last10 history) (\<lambda>msgs. history_loop env msgs [])"

definition source_entry :: "document \<Rightarrow> json" where
  "source_entry doc =
     JObj [(ascii ''title'', dict_get (metadata doc) (ascii ''title'') (JStr (ascii ''Unknown''))),
           (ascii ''chunk_index'', dict_get (metadata doc) (ascii ''chunk_index'') (JInt 0)),
           (ascii ''snippet'', JStr (take 250 (page_content doc)))]"

definition success_result :: "pystr \<Rightarrow> json list \<Rightarrow> json" where
  "success_result response sources =
     JObj [(ascii ''response'', JStr response),
           (ascii ''sources'', JArr sources),
           (ascii ''error'', JNull)]"

definition error_result :: "pystr \<Rightarrow> json" where
  "error_result error_msg =
     JObj [(ascii ''response'', JNull),
           (ascii ''sources'', JArr []),
           (ascii ''error'', JStr error_msg)]"

definition chat_body :: "'w env \<Rightarrow> service \<Rightarrow> json \<Rightarrow> json \<Rightarrow> json \<Rightarrow> ('w, json) io" where
  "chat_body env svc message history lang =
     (let message' = to_text env message in
      bind (lift (convert_history env history))
        (\<lambda>lc_history.
           bind (retriever_invoke env svc message')
             (\<lambda>docs.
                bind (chain_invoke env svc message' lc_history lang)
                  (\<lambda>response.
                     return (success_result (to_text env response)
                               (map source_entry (take 4 docs)))))))"

text \<open>The handler also prints the message on the error stream, which is not modelled.\<close>

definition chat :: "'w env \<Rightarrow> service \<Rightarrow> json \<Rightarrow> json \<Rightarrow> json \<Rightarrow> ('w, json) io" where
  "chat env svc message history lang =
     try_except (chat_body env svc message history lang)
       (\<lambda>e. return (error_result (str_exc e)))"

subsection \<open>\<open>generate_initial_greeting\<close>\<close>

definition lang_instructions :: "(pystr \<times> pystr) list" where
  "lang_instructions =
     [(ascii ''en'', ascii ''Generate in English''),
      (ascii ''hi'', ascii ''Generate in Hindi ('' @
         [0x939, 0x93f, 0x902, 0x926, 0x940, 0x20, 0x92e, 0x947, 0x902, 0x20, 0x91c, 0x935,
          0x93e, 0x92c, 0x20, 0x926, 0x947, 0x902] @ ascii '')''),
      (ascii ''te'', ascii ''Generate in Telugu ('' @
         [0xc24, 0xc46, 0xc32, 0xc41, 0xc17, 0xc41, 0xc32, 0xc4b, 0x20, 0xc38, 0xc2e, 0xc3e,
          0xc27, 0xc3e, 0xc28, 0xc02, 0x20, 0xc07, 0xc35, 0xc4d, 0xc35, 0xc02, 0xc21, 0xc3f]
         @ ascii '')''),
      (ascii ''ta'', ascii ''Generate in Tamil ('' @
         [0xba4, 0xbae, 0xbbf, 0xbb4, 0xbbf, 0xbb2, 0xbcd, 0x20, 0xbaa, 0xba4, 0xbbf, 0xbb2,
          0xbb3, 0xbbf, 0xb95, 0xbcd, 0xb95, 0xbb5, 0xbc1, 0xbae, 0xbcd] @ ascii '')''),
      (ascii ''mr'', ascii ''Generate in Marathi ('' @
         [0x92e, 0x930, 0x93e, 0x920, 0x940, 0x924, 0x20, 0x909, 0x924, 0x94d, 0x924, 0x930,
          0x20, 0x926, 0x94d, 0x92f, 0x93e] @ ascii '')''),
      (ascii ''bn'', ascii ''Generate in Bengali ('' @
         [0x9ac, 0x9be, 0x982, 0x9b2, 0x9be, 0x9af, 0x9bc, 0x20, 0x989, 0x9a4, 0x9cd, 0x9a4,
          0x9b0, 0x20, 0x9a6, 0x9bf, 0x9a8] @ ascii '')'')]"

text \<open>
  \<open>lang_instructions.get(language, "Generate in English")\<close>: the key is hashed first, so
  a list or a dict raises; any other value that is not one of the six codes gets the
  default.
\<close>

definition get_lang_instruction :: "json \<Rightarrow> py_exception + pystr" where
  "get_lang_instruction lang =
     (case lang of
        JArr xs \<Rightarrow> Inl (unhashable ''list'')
      | JObj kvs \<Rightarrow> Inl (unhashable ''dict'')
      | JStr code \<Rightarrow>
          Inr (case map_of lang_instructions code of
                 Some instruction \<Rightarrow> instruction
               | None \<Rightarrow> ascii ''Generate in English'')
      | _ \<Rightarrow> Inr (ascii ''Generate in English''))"

definition greeting_prompt :: "'w env \<Rightarrow> pystr \<Rightarrow> json \<Rightarrow> pystr" where
  "greeting_prompt env lang_instruction assessment_summary =
     ascii ''Based on this student's assessment results, generate a warm, encouraging greeting that:''
     @ [10] @ ascii ''1. Welcomes them to the career guidance chat''
     @ [10] @ ascii ''2. Briefly acknowledges their assessment results''
     @ [10] @ ascii ''3. Invites them to ask questions about their career recommendations''
     @ [10] @ ascii ''4. Is age-appropriate for students aged 13-15''
     @ [10, 10] @ lang_instruction
     @ [10, 10] @ ascii ''Assessment Summary:''
     @ [10] @ to_text env assessment_summary
     @ [10, 10] @ ascii ''Keep the greeting concise (2-3 sentences) and friendly.''"

definition fallback_greeting :: pystr where
  "fallback_greeting =
     ascii (''Hello! I'm your career guidance assistant. I'm here to help you explore your ''
            @ ''career options based on your assessment results. What would you like to know?'')"

definition generate_initial_greeting :: "'w env \<Rightarrow> service \<Rightarrow> json \<Rightarrow> json \<Rightarrow> ('w, json) io" where
  "generate_initial_greeting env svc assessment_summary lang =
     try_except
       (bind (lift (get_lang_instruction lang))
          (\<lambda>lang_instruction.
             chat env svc (JStr (greeting_prompt env lang_instruction assessment_summary))
               (JArr []) lang))
       (\<lambda>e. return (JObj [(ascii ''response'', JStr fallback_greeting),
                          (ascii ''sources'', JArr []),
                          (ascii ''error'', JStr (str_exc e))]))"

subsection \<open>The constructor\<close>

text \<open>The documents of one corpus item; \<open>item["id"]\<close> is read once per chunk.\<close>

definition item_docs :: "'w env \<Rightarrow> json \<Rightarrow> py_exception + document list" where
  "item_docs env item =
     bind_exc (py_getitem item (ascii ''title''))
       (\<lambda>title.
          bind_exc (py_getitem item (ascii ''content''))
            (\<lambda>content.
               let combined = to_text env title @ [10, 10] @ to_text env content;
                   chunks = split_text env combined
               in if chunks = [] then Inr []
                  else bind_exc (py_getitem item (ascii ''id''))
                    (\<lambda>source_id.
                       Inr (map (\<lambda>p. \<lparr>page_content = snd p,
                                       metadata = [(ascii ''source_id'', source_id),
                                                   (ascii ''title'', title),
                                                   (ascii ''chunk_index'', JInt (int (fst p)))]\<rparr>)
                              (enumerate 0 chunks)))))"

fun docs_loop :: "'w env \<Rightarrow> json list \<Rightarrow> document list \<Rightarrow> py_exception + document list" where
  "docs_loop env [] docs = Inr docs"
| "docs_loop env (item # rest) docs =
     bind_exc (item_docs env item) (\<lambda>ds. docs_loop env rest (docs @ ds))"

definition json_to_docs :: "'w env \<Rightarrow> json \<Rightarrow> py_exception + document list" where
  "json_to_docs env items = bind_exc (py_iter items) (\<lambda>xs. docs_loop env xs [])"

definition init_vectordb :: "'w env \<Rightarrow> json \<Rightarrow> json \<Rightarrow> ('w, chroma) io" where
  "init_vectordb env careers_json chroma_dir =
     bind (external (os_path_exists env chroma_dir))
       (\<lambda>ex.
          bind (if ex then bind (external (os_listdir env chroma_dir)) (\<lambda>names. return (names \<noteq> []))
                else return False)
            (\<lambda>built.
               if built
               then bind (external (chroma_open env chroma_dir)) (\<lambda>_. return (Chroma chroma_dir))
               else bind (external (open_json_load env careers_json))
                      (\<lambda>items.
                         bind (lift (json_to_docs env items))
                           (\<lambda>docs.
                              bind (external (chroma_from_documents env docs chroma_dir))
                                (\<lambda>_. return (Chroma chroma_dir))))))"

definition init_llm :: "'w env \<Rightarrow> json \<Rightarrow> ('w, llm) io" where
  "init_llm env prov =
     (if prov = JStr (ascii ''groq'')
      then bind (external (llm_new env (ChatGroq ''llama-3.3-70b-versatile'' 1500)))
             (\<lambda>_. return (ChatGroq ''llama-3.3-70b-versatile'' 1500))
      else if prov = JStr (ascii ''google'')
      then bind (external (llm_new env (ChatGoogleGenerativeAI ''gemini-2.5-flash'' 1500)))
             (\<lambda>_. return (ChatGoogleGenerativeAI ''gemini-2.5-flash'' 1500))
      else raise (Raise ValueError (ascii ''Unknown provider: '' @ to_text env prov)))"

definition RAGChatService :: "'w env \<Rightarrow> json \<Rightarrow> json \<Rightarrow> json \<Rightarrow> ('w, service) io" where
  "RAGChatService env careers_json chroma_dir prov =
     bind (external (hf_embeddings env ''BAAI/bge-m3''))
       (\<lambda>_. bind (init_vectordb env careers_json chroma_dir)
          (\<lambda>db. bind (init_llm env prov)
             (\<lambda>client. return \<lparr>provider = prov, careers_json_path = careers_json,
                                chroma_persist_dir = chroma_dir, vectordb = db,
                                llm = client, retriever_k = 3\<rparr>)))"

section \<open>The command dispatcher: \<open>main\<close>\<close>

definition init_response :: json where
  "init_response =
     JObj [(ascii ''status'', JStr (ascii ''success'')),
           (ascii ''message'', JStr (ascii ''RAG service initialized''))]"

definition data_response :: "json \<Rightarrow> json" where
  "data_response result =
     JObj [(ascii ''status'', JStr (ascii ''success'')), (ascii ''data'', result)]"

definition error_response :: "pystr \<Rightarrow> json" where
  "error_response msg =
     JObj [(ascii ''status'', JStr (ascii ''error'')), (ascii ''message'', JStr msg)]"

definition not_initialized :: py_exception where
  "not_initialized = Raise Exception (ascii ''Service not initialized. Call 'initialize' first.'')"

text \<open>
  The body of the \<open>try\<close> for one parsed command: the new value of \<open>rag_service\<close> and
  the object printed. \<open>rag_service\<close> is assigned only after the constructor has returned.
\<close>

definition dispatch :: "'w env \<Rightarrow> service option \<Rightarrow> json \<Rightarrow> ('w, service option \<times> json) io" where
  "dispatch env cur input_data =
     bind (lift (py_get input_data (ascii ''command'') JNull))
       (\<lambda>command.
          if command = JStr (ascii ''initialize'') then
            bind (lift (py_get input_data (ascii ''careers_json_path'') JNull))
              (\<lambda>careers_json.
                 bind (lift (py_get input_data (ascii ''chroma_persist_dir'') JNull))
                   (\<lambda>chroma_dir.
                      bind (lift (py_get input_data (ascii ''provider'') (JStr (ascii ''google''))))
                        (\<lambda>prov.
                           bind (RAGChatService env careers_json chroma_dir prov)
                             (\<lambda>svc. return (Some svc, init_response)))))
          else if command = JStr (ascii ''chat'') then
            bind (lift (py_get input_data (ascii ''message'') JNull))
              (\<lambda>message.
                 bind (lift (py_get input_data (ascii ''chat_history'') (JArr [])))
                   (\<lambda>history.
                      bind (lift (py_get input_data (ascii ''language'') (JStr (ascii ''en''))))
                        (\<lambda>lang.
                           case cur of
                             None \<Rightarrow> raise not_initialized
                           | Some svc \<Rightarrow>
                               bind (chat env svc message history lang)
                                 (\<lambda>result. return (cur, data_response result)))))
          else if command = JStr (ascii ''greeting'') then
            bind (lift (py_get input_data (ascii ''assessment_summary'') JNull))
              (\<lambda>assessment_summary.
                 bind (lift (py_get input_data (ascii ''language'') (JStr (ascii ''en''))))
                   (\<lambda>lang.
                      case cur of
                        None \<Rightarrow> raise not_initialized
                      | Some svc \<Rightarrow>
                          bind (generate_initial_greeting env svc assessment_summary lang)
                            (\<lambda>result. return (cur, data_response result))))
          else return (cur, error_response (ascii ''Unknown command: '' @ to_text env command)))"

text \<open>One non-blank line: parse, dispatch, and turn any exception into an error response.\<close>

definition process_line :: "'w env \<Rightarrow> service option \<Rightarrow> pystr \<Rightarrow> ('w, service option \<times> json) io" where
  "process_line env cur l =
     try_except (bind (lift (json_loads env l)) (dispatch env cur))
       (\<lambda>e. return (cur, error_response (str_exc e)))"

text \<open>
  The state of the loop: the service instance, the objects printed so far, an exception
  that left the loop (after which nothing more is read), and the outside world.
\<close>

record 'w main_state =
  rag_service :: "service option"
  stdout :: "json list"
  uncaught :: "py_exception option"
  io_state :: "'w world"

definition main_step :: "'w env \<Rightarrow> 'w main_state \<Rightarrow> pystr \<Rightarrow> 'w main_state" where
  "main_step env st line =
     (if uncaught st \<noteq> None then st
      else let l = str_strip env line in
        if l = [] then st
        else case process_line env (rag_service st) l (io_state st) of
               (Inr (svc, out), w) \<Rightarrow>
                 st\<lparr>rag_service := svc, stdout := stdout st @ [out], io_state := w\<rparr>
             | (Inl e, w) \<Rightarrow> st\<lparr>uncaught := Some e, io_state := w\<rparr>)"

definition initial_state :: "'w \<Rightarrow> 'w main_state" where
  "initial_state x =
     \<lparr>rag_service = None, stdout = [], uncaught = None, io_state = \<lparr>ext = x, trace = []\<rparr>\<rparr>"

definition main :: "'w env \<Rightarrow> 'w \<Rightarrow> pystr list \<Rightarrow> 'w main_state" where
  "main env x lines = foldl (main_step env) (initial_state x) lines"

section \<open>A test double for the collaborators\<close>

text \<open>
  A small outside world for concrete runs: the world is the number of index queries made
  so far, the first query finds the chunk \<open>doc_a\<close> and every later one \<open>doc_b\<close>, the
  language model answers with the context it was given, a line parses to a command
  object with that line as command name, and the splitter keeps a text in one piece.
  \<open>doc_a\<close> is the chunk that \<open>_json_to_docs\<close> builds from \<open>demo_corpus\<close>.
\<close>

definition demo_corpus :: json where
  "demo_corpus =
     JArr [JObj [(ascii ''id'', JInt 1), (ascii ''title'', JStr (ascii ''Doctor'')),
                 (ascii ''content'', JStr (ascii ''Doctors diagnose and treat illness.''))]]"

definition doc_a :: document where
  "doc_a = \<lparr>page_content = ascii ''Doctor'' @ [10, 10] @ ascii ''Doctors diagnose and treat illness.'',
            metadata = [(ascii ''source_id'', JInt 1), (ascii ''title'', JStr (ascii ''Doctor'')),
                        (ascii ''chunk_index'', JInt 0)]\<rparr>"

definition doc_b :: document where
  "doc_b = \<lparr>page_content = ascii ''Nurses care for patients.'',
            metadata = [(ascii ''source_id'', JInt 2), (ascii ''title'', JStr (ascii ''Nurse'')),
                        (ascii ''chunk_index'', JInt 0)]\<rparr>"

definition demo_env :: "nat env" where
  "demo_env =
     \<lparr>py_str = (\<lambda>v. ascii (type_name v)),
      str_strip = (\<lambda>s. s),
      json_loads = (\<lambda>l. Inr (JObj [(ascii ''command'', JStr l)])),
      split_text = (\<lambda>s. [s]),
      hf_embeddings = (\<lambda>m n. (Inr (), n)),
      os_path_exists = (\<lambda>p n. (Inr False, n)),
      os_listdir = (\<lambda>p n. (Inr [], n)),
      open_json_load = (\<lambda>p n. (Inr (JArr []), n)),
      chroma_open = (\<lambda>p n. (Inr (), n)),
      chroma_from_documents = (\<lambda>ds p n. (Inr (), n)),
      llm_new = (\<lambda>c n. (Inr (), n)),
      similarity_search = (\<lambda>db k q n. (Inr (take k (if n = 0 then [doc_a] else [doc_b])), Suc n)),
      llm_generate = (\<lambda>c req n. (Inr (JStr (context_text req)), n))\<rparr>"

text \<open>
  An index loaded from an existing directory that this service did not build: its one
  chunk stores the chunk index as a string.
\<close>

definition doc_seven :: document where
  "doc_seven = \<lparr>page_content = ascii ''Pilots fly aircraft.'',
                metadata = [(ascii ''title'', JStr (ascii ''Pilot'')),
                            (ascii ''chunk_index'', JStr (ascii ''seven''))]\<rparr>"

definition loaded_env :: "nat env" where
  "loaded_env = demo_env\<lparr>similarity_search := (\<lambda>db k q n. (Inr (take k [doc_seven]), Suc n))\<rparr>"

text \<open>The same world with a language model that is out of quota.\<close>

definition failing_env :: "nat env" where
  "failing_env =
     demo_env\<lparr>llm_generate := (\<lambda>c req n. (Inl (Raise LibraryError (ascii ''quota exceeded'')), n))\<rparr>"

definition demo_service :: service where
  "demo_service =
     \<lparr>provider = JStr (ascii ''google''), careers_json_path = JStr (ascii ''careers.json''),
      chroma_persist_dir = JStr (ascii ''chroma''), vectordb = Chroma (JStr (ascii ''chroma'')),
      llm = ChatGoogleGenerativeAI ''gemini-2.5-flash'' 1500, retriever_k = 3\<rparr>"

definition demo_world :: "nat world" where
  "demo_world = \<lparr>ext = 0, trace = []\<rparr>"

text \<open>A conversation of eleven elements: the first has no role and lies outside the window.\<close>

definition turn_user :: json where
  "turn_user = JObj [(ascii ''role'', JStr (ascii ''user'')), (ascii ''content'', JStr (ascii ''hi''))]"

definition turn_assistant :: json where
  "turn_assistant = JObj [(ascii ''role'', JStr (ascii ''assistant''))]"

definition turn_system :: json where
  "turn_system = JObj [(ascii ''role'', JStr (ascii ''system'')), (ascii ''content'', JStr (ascii ''be brief''))]"

definition demo_history :: "json list" where
  "demo_history = [JObj [], turn_user, turn_system, turn_assistant, turn_user, turn_assistant,
                   turn_user, turn_assistant, turn_user, turn_assistant, turn_user]"

definition demo_question :: json where
  "demo_question = JStr (ascii ''What does a doctor do?'')"


text \<open>An assessment summary, and the instruction of the table for \<open>hi\<close>.\<close>

definition demo_summary :: json where
  "demo_summary = JStr (ascii ''Top interests: Investigative, Social'')"

definition hindi_instruction :: pystr where
  "hindi_instruction = ascii ''Generate in Hindi ('' @
         [0x939, 0x93f, 0x902, 0x926, 0x940, 0x20, 0x92e, 0x947, 0x902, 0x20, 0x91c, 0x935,
          0x93e, 0x92c, 0x20, 0x926, 0x947, 0x902] @ ascii '')''"

text \<open>
  A parser that adds an unsupported provider to every command, and a dispatcher state
  that already holds a service.
\<close>

definition openai_env :: "nat env" where
  "openai_env =
     demo_env\<lparr>json_loads :=
       (\<lambda>l. Inr (JObj [(ascii ''command'', JStr l), (ascii ''provider'', JStr (ascii ''openai''))]))\<rparr>"

definition serving_state :: "nat main_state" where
  "serving_state =
     \<lparr>rag_service = Some demo_service, stdout = [], uncaught = None, io_state = demo_world\<rparr>"

section \<open>Vocabulary of the specification\<close>

text \<open>The window of the history manager: the last ten elements, in their order.\<close>

definition last10 :: "'a list \<Rightarrow> 'a list" where
  "last10 xs = drop (length xs - 10) xs"

text \<open>
  The normalisation of one history element as the specification words it: a \<open>user\<close> role
  gives a user turn, an \<open>assistant\<close> role an assistant turn, with the content coerced to
  text (empty when absent); any other element gives no turn.
\<close>

definition turn_of :: "'w env \<Rightarrow> json \<Rightarrow> lc_message option" where
  "turn_of env msg =
     (case msg of
        JObj kvs \<Rightarrow>
          (let content = to_text env (dict_get kvs (ascii ''content'') (JStr [])) in
           if map_of kvs (ascii ''role'') = Some (JStr (ascii ''user''))
           then Some (HumanMessage content)
           else if map_of kvs (ascii ''role'') = Some (JStr (ascii ''assistant''))
           then Some (AIMessage content)
           else None)
      | _ \<Rightarrow> None)"

fun has_role :: "json \<Rightarrow> bool" where
  "has_role (JObj kvs) = (map_of kvs (ascii ''role'') \<noteq> None)"
| "has_role v = False"

text \<open>The calls a step added to the log, and the exception a logged call raised.\<close>

definition new_events :: "'w world \<Rightarrow> 'w world \<Rightarrow> event list" where
  "new_events w w' = drop (length (trace w)) (trace w')"

fun raised :: "event \<Rightarrow> py_exception option" where
  "raised (RetrieverInvoke q (Inl e)) = Some e"
| "raised (LlmInvoke req (Inl e)) = Some e"
| "raised ev = None"

text \<open>A field of a response object.\<close>

definition field :: "json \<Rightarrow> string \<Rightarrow> json option" where
  "field v k = (case v of JObj kvs \<Rightarrow> map_of kvs (ascii k) | _ \<Rightarrow> None)"

definition exactly_one_null :: "json \<Rightarrow> bool" where
  "exactly_one_null data =
     (case (field data ''response'', field data ''error'') of
        (Some r, Some e) \<Rightarrow> (r \<noteq> JNull \<and> e = JNull) \<or> (r = JNull \<and> e \<noteq> JNull)
      | _ \<Rightarrow> False)"

fun is_int :: "json \<Rightarrow> bool" where
  "is_int (JInt n) = True"
| "is_int v = False"

definition int_chunk_index :: "document \<Rightarrow> bool" where
  "int_chunk_index doc = is_int (dict_get (metadata doc) (ascii ''chunk_index'') (JInt 0))"

section \<open>Basic facts\<close>

lemma ascii_eq_iff [simp]: "ascii s = ascii t \<longleftrightarrow> s = t"
  by (simp add: ascii_def inj_map_eq_map inj_on_def)

lemma ascii_Nil_iff [simp]: "ascii s = [] \<longleftrightarrow> s = []"
  by (simp add: ascii_def)

lemma bind_lift_Inr [simp]: "bind (lift (Inr x)) f = f x"
  by (simp add: bind_def lift_def)

lemma bind_lift_Inl [simp]: "bind (lift (Inl e)) f = raise e"
  by (simp add: bind_def lift_def raise_def)

lemma bind_return [simp]: "bind (return x) f = f x"
  by (simp add: bind_def return_def)

lemma bind_raise [simp]: "bind (raise e) f = raise e"
  by (simp add: bind_def raise_def)

lemma try_except_raise [simp]: "try_except (raise e) h = h e"
  by (simp add: try_except_def raise_def)

lemma try_except_return [simp]: "try_except (return x) h = return x"
  by (simp add: try_except_def return_def)

lemma field_error_result [simp]:
  "field (error_result msg) ''response'' = Some JNull"
  "field (error_result msg) ''sources'' = Some (JArr [])"
  "field (error_result msg) ''error'' = Some (JStr msg)"
  by (simp_all add: field_def error_result_def)

lemma field_success_result [simp]:
  "field (success_result r srcs) ''response'' = Some (JStr r)"
  "field (success_result r srcs) ''sources'' = Some (JArr srcs)"
  "field (success_result r srcs) ''error'' = Some JNull"
  by (simp_all add: field_def success_result_def)

lemma field_source_entry [simp]:
  "field (source_entry doc) ''title'' =
     Some (dict_get (metadata doc) (ascii ''title'') (JStr (ascii ''Unknown'')))"
  "field (source_entry doc) ''chunk_index'' =
     Some (dict_get (metadata doc) (ascii ''chunk_index'') (JInt 0))"
  "field (source_entry doc) ''snippet'' = Some (JStr (take 250 (page_content doc)))"
  by (simp_all add: field_def source_entry_def)

lemma demo_env_simps [simp]:
  "similarity_search demo_env db k q n = (Inr (take k (if n = 0 then [doc_a] else [doc_b])), Suc n)"
  "llm_generate demo_env c req n = (Inr (JStr (context_text req)), n)"
  "similarity_search failing_env db k q n = (Inr (take k (if n = 0 then [doc_a] else [doc_b])), Suc n)"
  "llm_generate failing_env c req n = (Inl (Raise LibraryError (ascii ''quota exceeded'')), n)"
  "py_str demo_env v = ascii (type_name v)"
  "py_str failing_env v = ascii (type_name v)"
  by (simp_all add: demo_env_def failing_env_def)

section \<open>History windowing\<close>

lemma turn_of_JObj:
  "turn_of env (JObj kvs) =
     (if map_of kvs (ascii ''role'') = Some (JStr (ascii ''user''))
      then Some (HumanMessage (to_text env (dict_get kvs (ascii ''content'') (JStr []))))
      else if map_of kvs (ascii ''role'') = Some (JStr (ascii ''assistant''))
      then Some (AIMessage (to_text env (dict_get kvs (ascii ''content'') (JStr []))))
      else None)"
  by (simp add: turn_of_def Let_def)


lemma history_loop_total:
  "\<forall>m \<in> set msgs. has_role m \<Longrightarrow>
   history_loop env msgs acc = Inr (acc @ List.map_filter (turn_of env) msgs)"
proof (induction msgs arbitrary: acc)
  case Nil
  then show ?case by (simp add: List.map_filter_simps)
next
  case (Cons msg rest)
  from Cons.prems obtain kvs r where m: "msg = JObj kvs" "map_of kvs (ascii ''role'') = Some r"
    by (cases msg) auto
  from Cons.prems have "\<forall>m \<in> set rest. has_role m" by simp
  note IH = Cons.IH [OF this]
  show ?case using m
    by (simp add: bind_exc_def turn_of_JObj Let_def List.map_filter_simps IH)
qed



lemma last10_demo_history:
  "last10 demo_history = [turn_user, turn_system, turn_assistant, turn_user, turn_assistant,
                   turn_user, turn_assistant, turn_user, turn_assistant, turn_user]"
  by (simp add: last10_def demo_history_def)




section \<open>One chat turn\<close>

lemma chat_unfold:
  "chat env svc m h l w =
     (case convert_history env h of
        Inl e \<Rightarrow> (Inr (error_result (str_exc e)), w)
      | Inr lc \<Rightarrow>
         (case similarity_search env (vectordb svc) (retriever_k svc) (to_text env m) (ext w) of
            (Inl e, x1) \<Rightarrow>
              (Inr (error_result (str_exc e)),
               \<lparr>ext = x1, trace = trace w @ [RetrieverInvoke (to_text env m) (Inl e)]\<rparr>)
          | (Inr docs, x1) \<Rightarrow>
             (case similarity_search env (vectordb svc) (retriever_k svc) (to_text env m) x1 of
                (Inl e, x2) \<Rightarrow>
                  (Inr (error_result (str_exc e)),
                   \<lparr>ext = x2, trace = trace w @ [RetrieverInvoke (to_text env m) (Inr docs),
                                                 RetrieverInvoke (to_text env m) (Inl e)]\<rparr>)
              | (Inr docs2, x2) \<Rightarrow>
                 (case llm_generate env (llm svc)
                         \<lparr>context_text = format_docs env docs2, question = to_text env m,
                          language = l, chat_history = lc\<rparr> x2 of
                    (Inl e, x3) \<Rightarrow>
                      (Inr (error_result (str_exc e)),
                       \<lparr>ext = x3, trace = trace w @
                          [RetrieverInvoke (to_text env m) (Inr docs),
                           RetrieverInvoke (to_text env m) (Inr docs2),
                           LlmInvoke \<lparr>context_text = format_docs env docs2,
                                      question = to_text env m,
                                      language = l, chat_history = lc\<rparr> (Inl e)]\<rparr>)
                  | (Inr resp, x3) \<Rightarrow>
                      (Inr (success_result (to_text env resp) (map source_entry (take 4 docs))),
                       \<lparr>ext = x3, trace = trace w @
                          [RetrieverInvoke (to_text env m) (Inr docs),
                           RetrieverInvoke (to_text env m) (Inr docs2),
                           LlmInvoke \<lparr>context_text = format_docs env docs2,
                                      question = to_text env m,
                                      language = l, chat_history = lc\<rparr> (Inr resp)]\<rparr>)))))"
  by (simp add: chat_def chat_body_def chat_body_def try_except_def bind_def lift_def return_def
        retriever_invoke_def llm_invoke_def logged_def chain_invoke_def get_context_def Let_def
      split: sum.splits prod.splits)

lemma chat_cases [case_names history_error retrieve_error context_error llm_error ok]:
  obtains
    (history_error) e where
      "convert_history env h = Inl e"
      "chat env svc m h l w = (Inr (error_result (str_exc e)), w)"
  | (retrieve_error) lc e w' where
      "convert_history env h = Inr lc"
      "chat env svc m h l w = (Inr (error_result (str_exc e)), w')"
      "trace w' = trace w @ [RetrieverInvoke (to_text env m) (Inl e)]"
  | (context_error) lc docs e w' where
      "convert_history env h = Inr lc"
      "chat env svc m h l w = (Inr (error_result (str_exc e)), w')"
      "trace w' = trace w @ [RetrieverInvoke (to_text env m) (Inr docs),
                             RetrieverInvoke (to_text env m) (Inl e)]"
  | (llm_error) lc docs docs2 e w' where
      "convert_history env h = Inr lc"
      "chat env svc m h l w = (Inr (error_result (str_exc e)), w')"
      "trace w' = trace w @
         [RetrieverInvoke (to_text env m) (Inr docs),
          RetrieverInvoke (to_text env m) (Inr docs2),
          LlmInvoke \<lparr>context_text = format_docs env docs2, question = to_text env m,
                     language = l, chat_history = lc\<rparr> (Inl e)]"
  | (ok) lc docs docs2 resp w' where
      "convert_history env h = Inr lc"
      "chat env svc m h l w =
         (Inr (success_result (to_text env resp) (map source_entry (take 4 docs))), w')"
      "trace w' = trace w @
         [RetrieverInvoke (to_text env m) (Inr docs),
          RetrieverInvoke (to_text env m) (Inr docs2),
          LlmInvoke \<lparr>context_text = format_docs env docs2, question = to_text env m,
                     language = l, chat_history = lc\<rparr> (Inr resp)]"
proof (cases "convert_history env h")
  case (Inl e)
  then show ?thesis using history_error by (simp add: chat_unfold)
next
  case (Inr lc)
  note h = Inr
  obtain r1 x1 where s1:
    "similarity_search env (vectordb svc) (retriever_k svc) (to_text env m) (ext w) = (r1, x1)"
    by (cases "similarity_search env (vectordb svc) (retriever_k svc) (to_text env m) (ext w)")
  show ?thesis
  proof (cases r1)
    case (Inl e)
    with h s1 show ?thesis using retrieve_error [of lc e] by (simp add: chat_unfold)
  next
    case (Inr docs)
    note d1 = Inr
    obtain r2 x2 where s2:
      "similarity_search env (vectordb svc) (retriever_k svc) (to_text env m) x1 = (r2, x2)"
      by (cases "similarity_search env (vectordb svc) (retriever_k svc) (to_text env m) x1")
    show ?thesis
    proof (cases r2)
      case (Inl e)
      with h s1 d1 s2 show ?thesis using context_error [of lc e _ docs] by (simp add: chat_unfold)
    next
      case (Inr docs2)
      note d2 = Inr
      obtain r3 x3 where s3:
        "llm_generate env (llm svc)
           \<lparr>context_text = format_docs env docs2, question = to_text env m,
            language = l, chat_history = lc\<rparr> x2 = (r3, x3)"
        by (cases "llm_generate env (llm svc)
           \<lparr>context_text = format_docs env docs2, question = to_text env m,
            language = l, chat_history = lc\<rparr> x2")
      show ?thesis
      proof (cases r3)
        case (Inl e)
        with h s1 d1 s2 d2 s3 show ?thesis
          using llm_error [of lc e _ docs docs2] by (simp add: chat_unfold)
      next
        case (Inr resp)
        with h s1 d1 s2 d2 s3 show ?thesis
          using ok [of lc resp docs _ docs2] by (simp add: chat_unfold)
      qed
    qed
  qed
qed

lemma chat_returns:
  "\<exists>res w'. chat env svc m h l w = (Inr res, w') \<and> exactly_one_null res"
  by (cases rule: chat_cases [of env h svc m l w]) (auto simp: exactly_one_null_def)

lemma chat_failing_env:
  "chat failing_env demo_service demo_question (JArr []) (JStr (ascii ''en'')) demo_world =
     (Inr (error_result (ascii ''quota exceeded'')),
      \<lparr>ext = 2, trace =
         [RetrieverInvoke (ascii ''What does a doctor do?'') (Inr [doc_a]),
          RetrieverInvoke (ascii ''What does a doctor do?'') (Inr [doc_b]),
          LlmInvoke \<lparr>context_text = format_docs failing_env [doc_b],
                     question = ascii ''What does a doctor do?'',
                     language = JStr (ascii ''en''), chat_history = []\<rparr>
            (Inl (Raise LibraryError (ascii ''quota exceeded'')))]\<rparr>)"
  by (simp add: chat_unfold convert_history_def bind_exc_def demo_service_def demo_world_def
        demo_question_def to_text_def)

text \<open>
  Claim C2. A chat turn always returns a result object, never an exception; and when a
  call to the retriever (embedding and index) or to the language model made during the
  turn raised \<open>e\<close>, the result is the error object: response null, error \<open>str(e)\<close>.
\<close>

theorem chat_catches_collaborator_failure:
  assumes "chat env svc m h l w = (r, w')"
  shows "(\<exists>res. r = Inr res) \<and>
         (\<forall>ev \<in> set (new_events w w'). \<forall>e. raised ev = Some e \<longrightarrow>
            r = Inr (error_result (str_exc e))
            \<and> field (error_result (str_exc e)) ''response'' = Some JNull
            \<and> field (error_result (str_exc e)) ''error'' = Some (JStr (str_exc e)))"
  using assms by (cases rule: chat_cases [of env h svc m l w]) (auto simp: new_events_def)

theorem chat_catches_collaborator_failure_witness:
  "raised (last (new_events demo_world
      (snd (chat failing_env demo_service demo_question (JArr []) (JStr (ascii ''en'')) demo_world))))
     = Some (Raise LibraryError (ascii ''quota exceeded'')) \<and>
   fst (chat failing_env demo_service demo_question (JArr []) (JStr (ascii ''en'')) demo_world)
     = Inr (error_result (ascii ''quota exceeded''))"
proof -
  have t: "trace demo_world = []" by (simp add: demo_world_def)
  show ?thesis
    using chat_catches_collaborator_failure [OF chat_failing_env]
    by (simp add: chat_failing_env new_events_def t)
qed

lemma trace_demo_world [simp]: "trace demo_world = []"
  by (simp add: demo_world_def)

lemma chat_demo_run:
  "chat demo_env demo_service demo_question (JArr []) (JStr (ascii ''en'')) demo_world =
     (Inr (success_result (format_docs demo_env [doc_b]) [source_entry doc_a]),
      \<lparr>ext = 2, trace =
         [RetrieverInvoke (ascii ''What does a doctor do?'') (Inr [doc_a]),
          RetrieverInvoke (ascii ''What does a doctor do?'') (Inr [doc_b]),
          LlmInvoke \<lparr>context_text = format_docs demo_env [doc_b],
                     question = ascii ''What does a doctor do?'',
                     language = JStr (ascii ''en''), chat_history = []\<rparr>
            (Inr (JStr (format_docs demo_env [doc_b])))]\<rparr>)"
  by (simp add: chat_unfold convert_history_def bind_exc_def demo_service_def demo_world_def
        demo_question_def to_text_def)

lemma chat_success_shape:
  assumes "chat env svc m h l w = (Inr res, w')" and "field res ''error'' = Some JNull"
  shows "\<exists>docs docs2 lc out.
           res = success_result (to_text env out) (map source_entry (take 4 docs)) \<and>
           new_events w w' =
             [RetrieverInvoke (to_text env m) (Inr docs),
              RetrieverInvoke (to_text env m) (Inr docs2),
              LlmInvoke \<lparr>context_text = format_docs env docs2, question = to_text env m,
                         language = l, chat_history = lc\<rparr> (Inr out)]"
  using assms by (cases rule: chat_cases [of env h svc m l w]) (auto simp: new_events_def)



text \<open>
  Claim C5, as the code has it. A chat turn that succeeds calls the retriever twice with
  the same query, the message text: once in \<open>chat\<close>, whose result gives the sources
  (its first four documents), and once inside the chain (\<open>get_context\<close>), whose result
  is formatted into the prompt context.
\<close>

theorem chat_retrieves_twice:
  assumes "chat env svc m h l w = (Inr res, w')" and "field res ''error'' = Some JNull"
  shows "\<exists>docs docs2 req out.
           new_events w w' =
             [RetrieverInvoke (to_text env m) (Inr docs),
              RetrieverInvoke (to_text env m) (Inr docs2),
              LlmInvoke req (Inr out)] \<and>
           context_text req = format_docs env docs2 \<and>
           field res ''sources'' = Some (JArr (map source_entry (take 4 docs)))"
proof -
  from chat_success_shape [OF assms] obtain docs docs2 lc out where
    r: "res = success_result (to_text env out) (map source_entry (take 4 docs))" and
    t: "new_events w w' =
             [RetrieverInvoke (to_text env m) (Inr docs),
              RetrieverInvoke (to_text env m) (Inr docs2),
              LlmInvoke \<lparr>context_text = format_docs env docs2, question = to_text env m,
                         language = l, chat_history = lc\<rparr> (Inr out)]"
    by blast
  show ?thesis
    apply (rule exI [of _ docs], rule exI [of _ docs2])
    apply (rule exI [of _ "\<lparr>context_text = format_docs env docs2, question = to_text env m,
                         language = l, chat_history = lc\<rparr>"], rule exI [of _ out])
    using r t by simp
qed

text \<open>
  The claim as written (one retrieval call, one result for both uses) fails on the test
  double: the log of the turn has two retriever calls, the sources list the chunk of the
  first and the context holds the chunk of the second.
\<close>

theorem single_retrieval_counterexample:
  "chat demo_env demo_service demo_question (JArr []) (JStr (ascii ''en'')) demo_world =
     (Inr (success_result (format_docs demo_env [doc_b]) [source_entry doc_a]),
      \<lparr>ext = 2, trace =
         [RetrieverInvoke (ascii ''What does a doctor do?'') (Inr [doc_a]),
          RetrieverInvoke (ascii ''What does a doctor do?'') (Inr [doc_b]),
          LlmInvoke \<lparr>context_text = format_docs demo_env [doc_b],
                     question = ascii ''What does a doctor do?'',
                     language = JStr (ascii ''en''), chat_history = []\<rparr>
            (Inr (JStr (format_docs demo_env [doc_b])))]\<rparr>)"
  by (rule chat_demo_run)

theorem chat_retrieves_twice_witness:
  "field (success_result (format_docs demo_env [doc_b]) [source_entry doc_a]) ''error'' = Some JNull \<and>
   (\<exists>docs docs2 req out.
      new_events demo_world
        (snd (chat demo_env demo_service demo_question (JArr []) (JStr (ascii ''en'')) demo_world)) =
        [RetrieverInvoke (to_text demo_env demo_question) (Inr docs),
         RetrieverInvoke (to_text demo_env demo_question) (Inr docs2),
         LlmInvoke req (Inr out)] \<and>
      context_text req = format_docs demo_env docs2 \<and>
      field (success_result (format_docs demo_env [doc_b]) [source_entry doc_a]) ''sources'' =
        Some (JArr (map source_entry (take 4 docs))))"
proof -
  have e: "field (success_result (format_docs demo_env [doc_b]) [source_entry doc_a]) ''error''
             = Some JNull"
    by simp
  from chat_retrieves_twice [OF chat_demo_run e] e show ?thesis
    by (simp add: chat_demo_run)
qed

section \<open>Sources\<close>

lemma item_docs_int_chunk_index:
  "item_docs env item = Inr ds \<Longrightarrow> list_all int_chunk_index ds"
  by (auto simp: item_docs_def bind_exc_def Let_def list_all_iff int_chunk_index_def dict_get_def
           split: sum.splits if_splits)

lemma docs_loop_int_chunk_index:
  "docs_loop env items acc = Inr ds \<Longrightarrow> list_all int_chunk_index acc \<Longrightarrow>
   list_all int_chunk_index ds"
proof (induction items arbitrary: acc)
  case Nil
  then show ?case by simp
next
  case (Cons item rest)
  from Cons.prems(1) obtain xs where
    i: "item_docs env item = Inr xs" and r: "docs_loop env rest (acc @ xs) = Inr ds"
    by (auto simp: bind_exc_def split: sum.splits)
  from item_docs_int_chunk_index [OF i] Cons.prems(2)
  have "list_all int_chunk_index (acc @ xs)" by simp
  from Cons.IH [OF r this] show ?case .
qed

lemma json_to_docs_int_chunk_index:
  "json_to_docs env items = Inr ds \<Longrightarrow> list_all int_chunk_index ds"
  by (auto simp: json_to_docs_def bind_exc_def split: sum.splits
           dest: docs_loop_int_chunk_index)

text \<open>
  Claim C8, as the code has it. In a successful chat turn the sources are built from the
  documents of the turn's first retriever call, one entry per document and in their
  order, at most four and at most as many as were retrieved. Each entry is the object
  with the title and the chunk index copied from the document's metadata (\<open>Unknown\<close>
  and \<open>0\<close> when the key is absent) and with the first 250 characters of its text as
  snippet. The chunk index is an integer for every retrieved chunk that
  \<open>_json_to_docs\<close> built; nothing checks it otherwise.
\<close>

theorem sources_from_retrieval:
  assumes "chat env svc m h l w = (Inr res, w')" and "field res ''error'' = Some JNull"
  shows "\<exists>docs sources rest.
           new_events w w' = RetrieverInvoke (to_text env m) (Inr docs) # rest \<and>
           field res ''sources'' = Some (JArr sources) \<and>
           length sources \<le> 4 \<and> length sources \<le> length docs \<and>
           (\<forall>i < length sources.
              sources ! i =
                JObj [(ascii ''title'',
                       dict_get (metadata (docs ! i)) (ascii ''title'') (JStr (ascii ''Unknown''))),
                      (ascii ''chunk_index'',
                       dict_get (metadata (docs ! i)) (ascii ''chunk_index'') (JInt 0)),
                      (ascii ''snippet'', JStr (take 250 (page_content (docs ! i))))] \<and>
              (\<forall>items ds. json_to_docs env items = Inr ds \<and> docs ! i \<in> set ds \<longrightarrow>
                 (\<exists>n. field (sources ! i) ''chunk_index'' = Some (JInt n))))"
proof -
  from chat_success_shape [OF assms] obtain docs docs2 lc out where
    r: "res = success_result (to_text env out) (map source_entry (take 4 docs))" and
    t: "new_events w w' =
             [RetrieverInvoke (to_text env m) (Inr docs),
              RetrieverInvoke (to_text env m) (Inr docs2),
              LlmInvoke \<lparr>context_text = format_docs env docs2, question = to_text env m,
                         language = l, chat_history = lc\<rparr> (Inr out)]"
    by blast
  have int: "\<exists>n. field (source_entry d) ''chunk_index'' = Some (JInt n)"
    if "json_to_docs env items = Inr ds" and "d \<in> set ds" for items ds d
  proof -
    from json_to_docs_int_chunk_index [OF that(1)] that(2) have "int_chunk_index d"
      by (simp add: list_all_iff)
    then obtain n where "dict_get (metadata d) (ascii ''chunk_index'') (JInt 0) = JInt n"
      unfolding int_chunk_index_def
      by (cases "dict_get (metadata d) (ascii ''chunk_index'') (JInt 0)") simp_all
    then show ?thesis by simp
  qed
  show ?thesis
    apply (rule exI [of _ docs])
    apply (rule exI [of _ "map source_entry (take 4 docs)"])
    using r t by (auto simp: source_entry_def [symmetric] dest: int)
qed

text \<open>
  The claim as written promises an integer chunk index in every entry. On an index that
  was loaded rather than built, a successful turn lists the stored string.
\<close>

theorem integer_chunk_index_counterexample:
  "fst (chat loaded_env demo_service demo_question (JArr []) (JStr (ascii ''en'')) demo_world) =
     Inr (success_result (format_docs loaded_env [doc_seven])
            [JObj [(ascii ''title'', JStr (ascii ''Pilot'')),
                   (ascii ''chunk_index'', JStr (ascii ''seven'')),
                   (ascii ''snippet'', JStr (ascii ''Pilots fly aircraft.''))]])"
  by (simp add: chat_unfold convert_history_def bind_exc_def demo_service_def demo_world_def
        demo_question_def to_text_def loaded_env_def demo_env_def source_entry_def doc_seven_def
        dict_get_def)
    (simp add: ascii_def)

theorem sources_from_retrieval_witness:
  "field (success_result (format_docs demo_env [doc_b]) [source_entry doc_a]) ''error'' = Some JNull \<and>
   json_to_docs demo_env demo_corpus = Inr [doc_a] \<and>
   (\<exists>docs sources rest.
      new_events demo_world
        (snd (chat demo_env demo_service demo_question (JArr []) (JStr (ascii ''en'')) demo_world)) =
        RetrieverInvoke (to_text demo_env demo_question) (Inr docs) # rest \<and>
      field (success_result (format_docs demo_env [doc_b]) [source_entry doc_a]) ''sources'' =
        Some (JArr sources) \<and>
      length sources \<le> 4 \<and> length sources \<le> length docs \<and>
      sources ! 0 =
        JObj [(ascii ''title'', JStr (ascii ''Doctor'')),
              (ascii ''chunk_index'', JInt 0),
              (ascii ''snippet'',
               JStr (ascii ''Doctor'' @ [10, 10] @ ascii ''Doctors diagnose and treat illness.''))] \<and>
      (\<exists>n. field (sources ! 0) ''chunk_index'' = Some (JInt n)))"
proof -
  have e: "field (success_result (format_docs demo_env [doc_b]) [source_entry doc_a]) ''error''
             = Some JNull"
    by simp
  have j: "json_to_docs demo_env demo_corpus = Inr [doc_a]"
    by (simp add: json_to_docs_def demo_corpus_def item_docs_def bind_exc_def demo_env_def
          to_text_def doc_a_def enumerate_eq_zip)
  from sources_from_retrieval [OF chat_demo_run e] obtain docs sources rest where
    t: "new_events demo_world \<lparr>ext = 2, trace =
         [RetrieverInvoke (ascii ''What does a doctor do?'') (Inr [doc_a]),
          RetrieverInvoke (ascii ''What does a doctor do?'') (Inr [doc_b]),
          LlmInvoke \<lparr>context_text = format_docs demo_env [doc_b],
                     question = ascii ''What does a doctor do?'',
                     language = JStr (ascii ''en''), chat_history = []\<rparr>
            (Inr (JStr (format_docs demo_env [doc_b])))]\<rparr>
       = RetrieverInvoke (to_text demo_env demo_question) (Inr docs) # rest" and
    s: "field (success_result (format_docs demo_env [doc_b]) [source_entry doc_a]) ''sources'' =
        Some (JArr sources)" and
    n: "length sources \<le> 4" "length sources \<le> length docs" and
    a: "\<forall>i < length sources.
          sources ! i =
            JObj [(ascii ''title'',
                   dict_get (metadata (docs ! i)) (ascii ''title'') (JStr (ascii ''Unknown''))),
                  (ascii ''chunk_index'',
                   dict_get (metadata (docs ! i)) (ascii ''chunk_index'') (JInt 0)),
                  (ascii ''snippet'', JStr (take 250 (page_content (docs ! i))))] \<and>
          (\<forall>items ds. json_to_docs demo_env items = Inr ds \<and> docs ! i \<in> set ds \<longrightarrow>
             (\<exists>n. field (sources ! i) ''chunk_index'' = Some (JInt n)))"
    by blast
  from t have d: "docs = [doc_a]" by (simp add: new_events_def)
  from s have l: "length sources = 1" by auto
  from l have lt: "0 < length sources" by simp
  note a0 = a [rule_format, OF lt]
  from a0 have 0: "sources ! 0 =
            JObj [(ascii ''title'',
                   dict_get (metadata (docs ! 0)) (ascii ''title'') (JStr (ascii ''Unknown''))),
                  (ascii ''chunk_index'',
                   dict_get (metadata (docs ! 0)) (ascii ''chunk_index'') (JInt 0)),
                  (ascii ''snippet'', JStr (take 250 (page_content (docs ! 0))))]"
    and i: "\<forall>items ds. json_to_docs demo_env items = Inr ds \<and> docs ! 0 \<in> set ds \<longrightarrow>
             (\<exists>n. field (sources ! 0) ''chunk_index'' = Some (JInt n))"
    by blast+
  from 0 d have 1: "sources ! 0 =
        JObj [(ascii ''title'', JStr (ascii ''Doctor'')),
              (ascii ''chunk_index'', JInt 0),
              (ascii ''snippet'',
               JStr (ascii ''Doctor'' @ [10, 10] @ ascii ''Doctors diagnose and treat illness.''))]"
    by (simp add: doc_a_def dict_get_def ascii_def)
  from j d have "json_to_docs demo_env demo_corpus = Inr [doc_a] \<and> docs ! 0 \<in> set [doc_a]"
    by simp
  with i have 2: "\<exists>n. field (sources ! 0) ''chunk_index'' = Some (JInt n)"
    by blast
  have "\<exists>docs sources rest.
      new_events demo_world
        (snd (chat demo_env demo_service demo_question (JArr []) (JStr (ascii ''en'')) demo_world)) =
        RetrieverInvoke (to_text demo_env demo_question) (Inr docs) # rest \<and>
      field (success_result (format_docs demo_env [doc_b]) [source_entry doc_a]) ''sources'' =
        Some (JArr sources) \<and>
      length sources \<le> 4 \<and> length sources \<le> length docs \<and>
      sources ! 0 =
        JObj [(ascii ''title'', JStr (ascii ''Doctor'')),
              (ascii ''chunk_index'', JInt 0),
              (ascii ''snippet'',
               JStr (ascii ''Doctor'' @ [10, 10] @ ascii ''Doctors diagnose and treat illness.''))] \<and>
      (\<exists>n. field (sources ! 0) ''chunk_index'' = Some (JInt n))"
    unfolding chat_demo_run snd_conv using t s n 1 2 by blast
  with e j show ?thesis by blast
qed

section \<open>History elements without a role\<close>

lemma history_loop_no_role:
  "x \<in> set msgs \<Longrightarrow> \<not> has_role x \<Longrightarrow> \<exists>e. history_loop env msgs acc = Inl e"
proof (induction msgs arbitrary: acc)
  case Nil
  then show ?case by simp
next
  case (Cons msg rest)
  show ?case
  proof (cases "msg = x")
    case True
    with Cons.prems(2) show ?thesis
      by (cases x) (simp_all add: bind_exc_def)
  next
    case False
    with Cons.prems have "x \<in> set rest" by simp
    from Cons.IH [OF this Cons.prems(2)] have ih: "\<exists>e. history_loop env rest a = Inl e" for a .
    show ?thesis
    proof (cases "py_get msg (ascii ''content'') (JStr [])")
      case (Inl e)
      then show ?thesis by (simp add: bind_exc_def)
    next
      case (Inr c)
      show ?thesis
      proof (cases "py_getitem msg (ascii ''role'')")
        case (Inl e)
        with Inr show ?thesis by (simp add: bind_exc_def)
      next
        case r: (Inr role)
        with Inr ih show ?thesis by (simp add: bind_exc_def Let_def)
      qed
    qed
  qed
qed

lemma last10_last10: "last10 (last10 xs) = last10 xs"
  by (simp add: last10_def)

lemma convert_history_last10:
  "convert_history env (JArr (last10 h)) = convert_history env (JArr h)"
  using last10_last10 [of h] by (simp add: convert_history_def last10_def)

lemma chat_demo_history:
  "chat demo_env demo_service demo_question (JArr demo_history) (JStr (ascii ''en'')) demo_world =
     (Inr (success_result (format_docs demo_env [doc_b]) [source_entry doc_a]),
      \<lparr>ext = 2, trace =
         [RetrieverInvoke (ascii ''What does a doctor do?'') (Inr [doc_a]),
          RetrieverInvoke (ascii ''What does a doctor do?'') (Inr [doc_b]),
          LlmInvoke \<lparr>context_text = format_docs demo_env [doc_b],
                     question = ascii ''What does a doctor do?'',
                     language = JStr (ascii ''en''),
                     chat_history = List.map_filter (turn_of demo_env) (last10 demo_history)\<rparr>
            (Inr (JStr (format_docs demo_env [doc_b])))]\<rparr>)"
proof -
  have "list_all has_role (last10 demo_history)"
    by (simp add: last10_demo_history turn_user_def turn_assistant_def turn_system_def)
  then have "convert_history demo_env (JArr demo_history) =
          Inr (List.map_filter (turn_of demo_env) (last10 demo_history))"
    using history_loop_total [of "last10 demo_history" demo_env "[]"]
    by (simp add: convert_history_def bind_exc_def last10_def list_all_iff)
  then show ?thesis
    by (simp add: chat_unfold demo_service_def demo_world_def demo_question_def to_text_def)
qed

text \<open>
  Claim C10, as the code has it. When an element without a \<open>role\<close> key (an object
  without the key, or a value that is no object) is among the last ten elements of the
  history, the turn fails before any collaborator is called and returns the error object
  (response null, sources empty, error set). Elements before the last ten are never
  read: the turn is the turn on the last ten alone. An element whose role is neither
  \<open>user\<close> nor \<open>assistant\<close> is skipped, and an element without a \<open>content\<close> key is
  kept with empty content.
\<close>

theorem missing_role_fails_turn:
  "(x \<in> set (last10 h) \<and> \<not> has_role x \<longrightarrow>
      (\<exists>msg. chat env svc m (JArr h) l w =
         (Inr (JObj [(ascii ''response'', JNull), (ascii ''sources'', JArr []),
                     (ascii ''error'', JStr msg)]), w)))
   \<and> chat env svc m (JArr h) l w = chat env svc m (JArr (last10 h)) l w
   \<and> (map_of kvs (ascii ''role'') = Some r \<and> r \<noteq> JStr (ascii ''user'')
        \<and> r \<noteq> JStr (ascii ''assistant'') \<longrightarrow>
      history_loop env (JObj kvs # rest) acc = history_loop env rest acc)
   \<and> (map_of kvs (ascii ''content'') = None
        \<and> map_of kvs (ascii ''role'') = Some (JStr (ascii ''user'')) \<longrightarrow>
      history_loop env (JObj kvs # rest) acc = history_loop env rest (acc @ [HumanMessage []]))
   \<and> (map_of kvs (ascii ''content'') = None
        \<and> map_of kvs (ascii ''role'') = Some (JStr (ascii ''assistant'')) \<longrightarrow>
      history_loop env (JObj kvs # rest) acc = history_loop env rest (acc @ [AIMessage []]))"
proof (intro conjI impI)
  assume a: "x \<in> set (last10 h) \<and> \<not> has_role x"
  then obtain e where "history_loop env (last10 h) [] = Inl e"
    using history_loop_no_role by blast
  then have "convert_history env (JArr h) = Inl e"
    by (simp add: convert_history_def bind_exc_def last10_def)
  then have "chat env svc m (JArr h) l w = (Inr (error_result (str_exc e)), w)"
    by (simp add: chat_unfold)
  then show "\<exists>msg. chat env svc m (JArr h) l w =
         (Inr (JObj [(ascii ''response'', JNull), (ascii ''sources'', JArr []),
                     (ascii ''error'', JStr msg)]), w)"
    unfolding error_result_def by blast
next
  show "chat env svc m (JArr h) l w = chat env svc m (JArr (last10 h)) l w"
    by (simp add: chat_unfold convert_history_last10)
qed (simp_all add: bind_exc_def dict_get_def to_text_def)

text \<open>
  The claim as written speaks of every history element: an element without a role that
  lies before the last ten is never read, and the turn succeeds.
\<close>

theorem missing_role_counterexample:
  "demo_history ! 0 = JObj [] \<and> map_of [] (ascii ''role'') = (None :: json option) \<and>
   fst (chat demo_env demo_service demo_question (JArr demo_history) (JStr (ascii ''en'')) demo_world)
     = Inr (success_result (format_docs demo_env [doc_b]) [source_entry doc_a])"
  by (simp add: chat_demo_history) (simp add: demo_history_def)

theorem missing_role_fails_turn_witness:
  "JObj [] \<in> set (last10 [turn_user, JObj []]) \<and> \<not> has_role (JObj []) \<and>
   (\<exists>msg. chat demo_env demo_service demo_question (JArr [turn_user, JObj []])
            (JStr (ascii ''en'')) demo_world =
          (Inr (JObj [(ascii ''response'', JNull), (ascii ''sources'', JArr []),
                      (ascii ''error'', JStr msg)]), demo_world)) \<and>
   JStr (ascii ''hello'') \<in> set (last10 [JStr (ascii ''hello''), turn_user]) \<and>
   \<not> has_role (JStr (ascii ''hello'')) \<and>
   (\<exists>msg. chat demo_env demo_service demo_question (JArr [JStr (ascii ''hello''), turn_user])
            (JStr (ascii ''en'')) demo_world =
          (Inr (JObj [(ascii ''response'', JNull), (ascii ''sources'', JArr []),
                      (ascii ''error'', JStr msg)]), demo_world)) \<and>
   chat demo_env demo_service demo_question (JArr demo_history) (JStr (ascii ''en'')) demo_world =
     chat demo_env demo_service demo_question (JArr (last10 demo_history)) (JStr (ascii ''en''))
       demo_world \<and>
   history_loop demo_env [turn_system] [] = Inr [] \<and>
   history_loop demo_env [turn_assistant] [] = Inr [AIMessage []] \<and>
   history_loop demo_env [JObj [(ascii ''role'', JStr (ascii ''user''))]] [] = Inr [HumanMessage []]"
proof -
  have a: "JObj [] \<in> set (last10 [turn_user, JObj []]) \<and> \<not> has_role (JObj [])"
    by (simp add: last10_def)
  have b: "JStr (ascii ''hello'') \<in> set (last10 [JStr (ascii ''hello''), turn_user])
           \<and> \<not> has_role (JStr (ascii ''hello''))"
    by (simp add: last10_def)
  have 1: "\<exists>msg. chat demo_env demo_service demo_question (JArr [turn_user, JObj []])
            (JStr (ascii ''en'')) demo_world =
          (Inr (JObj [(ascii ''response'', JNull), (ascii ''sources'', JArr []),
                      (ascii ''error'', JStr msg)]), demo_world)"
    using missing_role_fails_turn [where x = "JObj []" and h = "[turn_user, JObj []]"
            and env = demo_env and svc = demo_service and m = demo_question
            and l = "JStr (ascii ''en'')" and w = demo_world] a
    by blast
  have 2: "\<exists>msg. chat demo_env demo_service demo_question (JArr [JStr (ascii ''hello''), turn_user])
            (JStr (ascii ''en'')) demo_world =
          (Inr (JObj [(ascii ''response'', JNull), (ascii ''sources'', JArr []),
                      (ascii ''error'', JStr msg)]), demo_world)"
    using missing_role_fails_turn [where x = "JStr (ascii ''hello'')"
            and h = "[JStr (ascii ''hello''), turn_user]"
            and env = demo_env and svc = demo_service and m = demo_question
            and l = "JStr (ascii ''en'')" and w = demo_world] b
    by blast
  have 3: "chat demo_env demo_service demo_question (JArr demo_history) (JStr (ascii ''en''))
             demo_world =
           chat demo_env demo_service demo_question (JArr (last10 demo_history))
             (JStr (ascii ''en'')) demo_world"
    using missing_role_fails_turn [where h = demo_history
            and env = demo_env and svc = demo_service and m = demo_question
            and l = "JStr (ascii ''en'')" and w = demo_world]
    by blast
  have 4: "history_loop demo_env [turn_system] [] = Inr []"
    using missing_role_fails_turn
      [where kvs = "[(ascii ''role'', JStr (ascii ''system'')), (ascii ''content'', JStr (ascii ''be brief''))]"
         and r = "JStr (ascii ''system'')" and env = demo_env and rest = "[]" and acc = "[]"]
    by (simp add: turn_system_def)
  have 5: "history_loop demo_env [turn_assistant] [] = Inr [AIMessage []]"
    using missing_role_fails_turn
      [where kvs = "[(ascii ''role'', JStr (ascii ''assistant''))]"
         and env = demo_env and rest = "[]" and acc = "[]"]
    by (simp add: turn_assistant_def)
  have 6: "history_loop demo_env [JObj [(ascii ''role'', JStr (ascii ''user''))]] [] = Inr [HumanMessage []]"
    using missing_role_fails_turn
      [where kvs = "[(ascii ''role'', JStr (ascii ''user''))]"
         and env = demo_env and rest = "[]" and acc = "[]"]
    by simp
  from a b 1 2 3 4 5 6 show ?thesis by blast
qed

section \<open>The greeting\<close>

lemma greeting_is_chat:
  assumes "get_lang_instruction lang = Inr instruction"
  shows "generate_initial_greeting env svc summary lang w =
           chat env svc (JStr (greeting_prompt env instruction summary)) (JArr []) lang w"
proof -
  obtain res w' where
    "chat env svc (JStr (greeting_prompt env instruction summary)) (JArr []) lang w = (Inr res, w')"
    using chat_returns by blast
  with assms show ?thesis
    by (simp add: generate_initial_greeting_def try_except_def)
qed

text \<open>
  Claim C6 does not hold of the code. The fallback greeting of
  \<open>generate_initial_greeting\<close> is returned only for an exception raised in that function
  itself; a failure inside the turn is caught by \<open>chat\<close> first, which returns its error
  object. With a language model that raises, the greeting has a null response and the
  error text, not the fallback string.
\<close>

theorem greeting_failure_gives_null_response:
  "fst (generate_initial_greeting failing_env demo_service demo_summary (JStr (ascii ''en''))
          demo_world)
     = Inr (JObj [(ascii ''response'', JNull), (ascii ''sources'', JArr []),
                  (ascii ''error'', JStr (ascii ''quota exceeded''))])"
proof -
  have l: "get_lang_instruction (JStr (ascii ''en'')) = Inr (ascii ''Generate in English'')"
    by (simp add: get_lang_instruction_def lang_instructions_def)
  show ?thesis
    unfolding greeting_is_chat [OF l]
    by (simp add: chat_unfold convert_history_def bind_exc_def demo_service_def demo_world_def
          error_result_def)
qed

text \<open>
  Claim C7. Each of the codes \<open>en\<close>, \<open>hi\<close>, \<open>te\<close>, \<open>ta\<close>, \<open>mr\<close>, \<open>bn\<close> selects its
  fixed instruction, every other code selects the English one, and with the instruction
  selected the greeting is the result of \<open>chat\<close> on the synthesised prompt with an empty
  history and the same language. The prompt is the fixed directive with the selected
  instruction and the summary embedded, and every generation request that the greeting
  sends to the language model carries that prompt as its question, an empty history and
  the requested language.
\<close>

theorem greeting_language_selection:
  "get_lang_instruction (JStr (ascii ''en'')) = Inr (ascii ''Generate in English'')
   \<and> get_lang_instruction (JStr (ascii ''hi'')) =
       Inr (ascii ''Generate in Hindi ('' @
         [0x939, 0x93f, 0x902, 0x926, 0x940, 0x20, 0x92e, 0x947, 0x902, 0x20, 0x91c, 0x935,
          0x93e, 0x92c, 0x20, 0x926, 0x947, 0x902] @ ascii '')'')
   \<and> get_lang_instruction (JStr (ascii ''te'')) =
       Inr (ascii ''Generate in Telugu ('' @
         [0xc24, 0xc46, 0xc32, 0xc41, 0xc17, 0xc41, 0xc32, 0xc4b, 0x20, 0xc38, 0xc2e, 0xc3e,
          0xc27, 0xc3e, 0xc28, 0xc02, 0x20, 0xc07, 0xc35, 0xc4d, 0xc35, 0xc02, 0xc21, 0xc3f]
         @ ascii '')'')
   \<and> get_lang_instruction (JStr (ascii ''ta'')) =
       Inr (ascii ''Generate in Tamil ('' @
         [0xba4, 0xbae, 0xbbf, 0xbb4, 0xbbf, 0xbb2, 0xbcd, 0x20, 0xbaa, 0xba4, 0xbbf, 0xbb2,
          0xbb3, 0xbbf, 0xb95, 0xbcd, 0xb95, 0xbb5, 0xbc1, 0xbae, 0xbcd] @ ascii '')'')
   \<and> get_lang_instruction (JStr (ascii ''mr'')) =
       Inr (ascii ''Generate in Marathi ('' @
         [0x92e, 0x930, 0x93e, 0x920, 0x940, 0x924, 0x20, 0x909, 0x924, 0x94d, 0x924, 0x930,
          0x20, 0x926, 0x94d, 0x92f, 0x93e] @ ascii '')'')
   \<and> get_lang_instruction (JStr (ascii ''bn'')) =
       Inr (ascii ''Generate in Bengali ('' @
         [0x9ac, 0x9be, 0x982, 0x9b2, 0x9be, 0x9af, 0x9bc, 0x20, 0x989, 0x9a4, 0x9cd, 0x9a4,
          0x9b0, 0x20, 0x9a6, 0x9bf, 0x9a8] @ ascii '')'')
   \<and> (code \<notin> set (map ascii [''en'', ''hi'', ''te'', ''ta'', ''mr'', ''bn'']) \<longrightarrow>
        get_lang_instruction (JStr code) = Inr (ascii ''Generate in English''))
   \<and> (get_lang_instruction lang = Inr instruction \<longrightarrow>
        generate_initial_greeting env svc summary lang w =
          chat env svc (JStr (greeting_prompt env instruction summary)) (JArr []) lang w)
   \<and> greeting_prompt env instruction summary =
        ascii ''Based on this student's assessment results, generate a warm, encouraging greeting that:''
          @ [10] @ ascii ''1. Welcomes them to the career guidance chat''
          @ [10] @ ascii ''2. Briefly acknowledges their assessment results''
          @ [10] @ ascii ''3. Invites them to ask questions about their career recommendations''
          @ [10] @ ascii ''4. Is age-appropriate for students aged 13-15''
          @ [10, 10] @ instruction
          @ [10, 10] @ ascii ''Assessment Summary:''
          @ [10] @ to_text env summary
          @ [10, 10] @ ascii ''Keep the greeting concise (2-3 sentences) and friendly.''
   \<and> (get_lang_instruction lang = Inr instruction
        \<and> generate_initial_greeting env svc summary lang w = (res, w')
        \<and> LlmInvoke req out \<in> set (new_events w w') \<longrightarrow>
        question req = greeting_prompt env instruction summary
        \<and> chat_history req = [] \<and> language req = lang)"
proof (intro conjI impI)
  assume "code \<notin> set (map ascii [''en'', ''hi'', ''te'', ''ta'', ''mr'', ''bn''])"
  then show "get_lang_instruction (JStr code) = Inr (ascii ''Generate in English'')"
    by (simp add: get_lang_instruction_def lang_instructions_def)
next
  assume "get_lang_instruction lang = Inr instruction"
  then show "generate_initial_greeting env svc summary lang w =
          chat env svc (JStr (greeting_prompt env instruction summary)) (JArr []) lang w"
    by (rule greeting_is_chat)
next
  assume a: "get_lang_instruction lang = Inr instruction
        \<and> generate_initial_greeting env svc summary lang w = (res, w')
        \<and> LlmInvoke req out \<in> set (new_events w w')"
  then have c: "chat env svc (JStr (greeting_prompt env instruction summary)) (JArr []) lang w
                  = (res, w')"
    using greeting_is_chat [of lang instruction env svc summary w] by simp
  have h: "convert_history env (JArr []) = Inr lc \<Longrightarrow> lc = []" for lc
    by (simp add: convert_history_def bind_exc_def)
  from a have ev: "LlmInvoke req out \<in> set (new_events w w')" by simp
  from c ev h have "question req = greeting_prompt env instruction summary
        \<and> chat_history req = [] \<and> language req = lang"
    by (cases rule: chat_cases
          [of env "JArr []" svc "JStr (greeting_prompt env instruction summary)" lang w])
       (auto simp: new_events_def to_text_def)
  then show "question req = greeting_prompt env instruction summary"
    and "chat_history req = []" and "language req = lang"
    by simp_all
qed (simp_all add: get_lang_instruction_def lang_instructions_def greeting_prompt_def)

lemma greeting_demo_run:
  "chat demo_env demo_service (JStr p) (JArr []) (JStr (ascii ''hi'')) demo_world =
     (Inr (success_result (format_docs demo_env [doc_b]) [source_entry doc_a]),
      \<lparr>ext = 2, trace =
         [RetrieverInvoke p (Inr [doc_a]),
          RetrieverInvoke p (Inr [doc_b]),
          LlmInvoke \<lparr>context_text = format_docs demo_env [doc_b], question = p,
                     language = JStr (ascii ''hi''), chat_history = []\<rparr>
            (Inr (JStr (format_docs demo_env [doc_b])))]\<rparr>)"
  by (simp add: chat_unfold convert_history_def bind_exc_def demo_service_def demo_world_def
        to_text_def)

theorem greeting_language_selection_witness:
  "ascii ''fr'' \<notin> set (map ascii [''en'', ''hi'', ''te'', ''ta'', ''mr'', ''bn''])
   \<and> get_lang_instruction (JStr (ascii ''fr'')) = Inr (ascii ''Generate in English'')
   \<and> get_lang_instruction (JStr (ascii ''hi'')) = Inr hindi_instruction
   \<and> generate_initial_greeting demo_env demo_service demo_summary (JStr (ascii ''hi'')) demo_world =
       chat demo_env demo_service (JStr (greeting_prompt demo_env hindi_instruction demo_summary))
         (JArr []) (JStr (ascii ''hi'')) demo_world
   \<and> LlmInvoke \<lparr>context_text = format_docs demo_env [doc_b],
                 question = greeting_prompt demo_env hindi_instruction demo_summary,
                 language = JStr (ascii ''hi''), chat_history = []\<rparr>
        (Inr (JStr (format_docs demo_env [doc_b])))
       \<in> set (new_events demo_world
            (snd (generate_initial_greeting demo_env demo_service demo_summary
                    (JStr (ascii ''hi'')) demo_world)))"
proof -
  have a: "ascii ''fr'' \<notin> set (map ascii [''en'', ''hi'', ''te'', ''ta'', ''mr'', ''bn''])"
    by simp
  note t = greeting_language_selection [where code = "ascii ''fr''" and lang = "JStr (ascii ''hi'')"
      and instruction = hindi_instruction and env = demo_env and svc = demo_service
      and summary = demo_summary and w = demo_world]
  from t have h: "get_lang_instruction (JStr (ascii ''hi'')) = Inr hindi_instruction"
    by (simp add: hindi_instruction_def)
  from t h have g: "generate_initial_greeting demo_env demo_service demo_summary
        (JStr (ascii ''hi'')) demo_world =
       chat demo_env demo_service (JStr (greeting_prompt demo_env hindi_instruction demo_summary))
         (JArr []) (JStr (ascii ''hi'')) demo_world"
    by blast
  have e: "LlmInvoke \<lparr>context_text = format_docs demo_env [doc_b],
                 question = greeting_prompt demo_env hindi_instruction demo_summary,
                 language = JStr (ascii ''hi''), chat_history = []\<rparr>
        (Inr (JStr (format_docs demo_env [doc_b])))
       \<in> set (new_events demo_world
            (snd (generate_initial_greeting demo_env demo_service demo_summary
                    (JStr (ascii ''hi'')) demo_world)))"
    unfolding g greeting_demo_run by (simp add: new_events_def)
  from t a h g e show ?thesis by blast
qed

section \<open>The dispatcher\<close>

lemma dispatch_uninitialized:
  assumes "py_get input_data (ascii ''command'') JNull = Inr c"
    and "c = JStr (ascii ''chat'') \<or> c = JStr (ascii ''greeting'')"
  shows "dispatch env None input_data w = (Inl not_initialized, w)"
proof -
  from assms(1) obtain kvs where d: "input_data = JObj kvs"
    by (cases input_data) simp_all
  with assms have "dict_get kvs (ascii ''command'') JNull = JStr (ascii ''chat'')
      \<or> dict_get kvs (ascii ''command'') JNull = JStr (ascii ''greeting'')"
    by auto
  then show ?thesis
    by (auto simp: dispatch_def d raise_def)
qed

lemma dispatch_service:
  assumes "dispatch env cur input_data w = (Inr (svc, out), w')"
  shows "svc = cur \<or> out = init_response"
proof (cases input_data)
  case (JObj kvs)
  with assms show ?thesis
    by (auto simp: dispatch_def bind_def return_def raise_def
             split: if_splits sum.splits prod.splits option.splits)
qed (use assms in \<open>simp_all add: dispatch_def raise_def\<close>)

lemma process_line_service:
  assumes "process_line env cur l w = (Inr (svc, out), w')"
  shows "svc = cur \<or> out = init_response"
proof (cases "json_loads env l")
  case (Inl e)
  with assms show ?thesis by (simp add: process_line_def return_def)
next
  case (Inr d)
  show ?thesis
  proof (cases "dispatch env cur d w")
    case (Pair r w2)
    with Inr assms show ?thesis
      by (cases r) (auto simp: process_line_def try_except_def return_def dest: dispatch_service)
  qed
qed

lemma main_step_service:
  "rag_service (main_step env st line) = rag_service st
   \<or> stdout (main_step env st line) = stdout st @ [init_response]"
proof (cases "uncaught st \<noteq> None \<or> str_strip env line = []")
  case True
  then show ?thesis by (auto simp: main_step_def)
next
  case False
  obtain r w where p: "process_line env (rag_service st) (str_strip env line) (io_state st) = (r, w)"
    by (cases "process_line env (rag_service st) (str_strip env line) (io_state st)")
  show ?thesis
  proof (cases r)
    case (Inl e)
    with False p show ?thesis by (simp add: main_step_def Let_def)
  next
    case (Inr so)
    obtain svc out where so: "so = (svc, out)" by (cases so)
    from process_line_service p Inr so have "svc = rag_service st \<or> out = init_response"
      by blast
    with False p Inr so show ?thesis by (auto simp: main_step_def Let_def)
  qed
qed

text \<open>
  Claim C1. While \<open>rag_service\<close> is \<open>None\<close>, a \<open>chat\<close> or \<open>greeting\<close> command is
  answered with one error response whose message says that the service is not
  initialised, and nothing else changes: no call to the retriever or the language model
  is logged and the outside world is untouched. The loop starts uninitialised, and only a
  step that prints the success response of \<open>initialize\<close> leaves that state.
\<close>

theorem uninitialized_rejects_chat_and_greeting:
  "(uncaught st = None \<and> rag_service st = None \<and> str_strip env line \<noteq> []
      \<and> json_loads env (str_strip env line) = Inr input_data
      \<and> py_get input_data (ascii ''command'') JNull = Inr c
      \<and> (c = JStr (ascii ''chat'') \<or> c = JStr (ascii ''greeting'')) \<longrightarrow>
    main_step env st line =
      st\<lparr>stdout := stdout st @
           [JObj [(ascii ''status'', JStr (ascii ''error'')),
                  (ascii ''message'',
                   JStr (ascii ''Service not initialized. Call 'initialize' first.''))]]\<rparr>
    \<and> new_events (io_state st) (io_state (main_step env st line)) = []
    \<and> ext (io_state (main_step env st line)) = ext (io_state st))
   \<and> rag_service (initial_state x) = None
   \<and> (rag_service st = None \<longrightarrow>
        rag_service (main_step env st line) = None
        \<or> stdout (main_step env st line) = stdout st @ [init_response])"
proof (intro conjI impI)
  assume a: "uncaught st = None \<and> rag_service st = None \<and> str_strip env line \<noteq> []
      \<and> json_loads env (str_strip env line) = Inr input_data
      \<and> py_get input_data (ascii ''command'') JNull = Inr c
      \<and> (c = JStr (ascii ''chat'') \<or> c = JStr (ascii ''greeting''))"
  then have "dispatch env None input_data (io_state st) = (Inl not_initialized, io_state st)"
    using dispatch_uninitialized by blast
  with a have p: "process_line env (rag_service st) (str_strip env line) (io_state st) =
      (Inr (None, error_response (str_exc not_initialized)), io_state st)"
    by (simp add: process_line_def try_except_def return_def)
  with a show eq: "main_step env st line =
      st\<lparr>stdout := stdout st @
           [JObj [(ascii ''status'', JStr (ascii ''error'')),
                  (ascii ''message'',
                   JStr (ascii ''Service not initialized. Call 'initialize' first.''))]]\<rparr>"
    by (simp add: main_step_def Let_def error_response_def not_initialized_def)
  show "new_events (io_state st) (io_state (main_step env st line)) = []"
    unfolding eq by (simp add: new_events_def)
  show "ext (io_state (main_step env st line)) = ext (io_state st)"
    unfolding eq by simp
next
  show "rag_service (initial_state x) = None" by (simp add: initial_state_def)
next
  assume "rag_service st = None"
  with main_step_service [of env st line]
  show "rag_service (main_step env st line) = None
        \<or> stdout (main_step env st line) = stdout st @ [init_response]"
    by simp
qed

theorem uninitialized_rejects_chat_and_greeting_witness:
  "main_step demo_env (initial_state 0) (ascii ''chat'') =
     (initial_state 0)\<lparr>stdout :=
           [JObj [(ascii ''status'', JStr (ascii ''error'')),
                  (ascii ''message'',
                   JStr (ascii ''Service not initialized. Call 'initialize' first.''))]]\<rparr>
   \<and> main_step demo_env (initial_state 0) (ascii ''greeting'') =
     (initial_state 0)\<lparr>stdout :=
           [JObj [(ascii ''status'', JStr (ascii ''error'')),
                  (ascii ''message'',
                   JStr (ascii ''Service not initialized. Call 'initialize' first.''))]]\<rparr>"
proof -
  have e: "str_strip demo_env l = l"
    "json_loads demo_env l = Inr (JObj [(ascii ''command'', JStr l)])" for l
    by (simp_all add: demo_env_def)
  have i: "uncaught (initial_state (0::nat)) = None" "rag_service (initial_state (0::nat)) = None"
    "stdout (initial_state (0::nat)) = []"
    by (simp_all add: initial_state_def)
  have 1: "main_step demo_env (initial_state 0) (ascii ''chat'') =
     (initial_state 0)\<lparr>stdout :=
           [JObj [(ascii ''status'', JStr (ascii ''error'')),
                  (ascii ''message'',
                   JStr (ascii ''Service not initialized. Call 'initialize' first.''))]]\<rparr>"
    using uninitialized_rejects_chat_and_greeting
      [where st = "initial_state 0" and env = demo_env and line = "ascii ''chat''"
         and input_data = "JObj [(ascii ''command'', JStr (ascii ''chat''))]"
         and c = "JStr (ascii ''chat'')" and x = "0::nat"]
    by (simp add: e i dict_get_def)
  have 2: "main_step demo_env (initial_state 0) (ascii ''greeting'') =
     (initial_state 0)\<lparr>stdout :=
           [JObj [(ascii ''status'', JStr (ascii ''error'')),
                  (ascii ''message'',
                   JStr (ascii ''Service not initialized. Call 'initialize' first.''))]]\<rparr>"
    using uninitialized_rejects_chat_and_greeting
      [where st = "initial_state 0" and env = demo_env and line = "ascii ''greeting''"
         and input_data = "JObj [(ascii ''command'', JStr (ascii ''greeting''))]"
         and c = "JStr (ascii ''greeting'')" and x = "0::nat"]
    by (simp add: e i dict_get_def)
  from 1 2 show ?thesis by blast
qed

section \<open>Initialisation failures\<close>

lemma unknown_provider_raises:
  assumes "prov \<noteq> JStr (ascii ''groq'')" and "prov \<noteq> JStr (ascii ''google'')"
  shows "\<exists>e w'. RAGChatService env cj cd prov w = (Inl e, w')"
proof -
  have l: "init_llm env prov =
             raise (Raise ValueError (ascii ''Unknown provider: '' @ to_text env prov))"
    using assms by (simp add: init_llm_def)
  obtain r1 w1 where s1: "external (hf_embeddings env ''BAAI/bge-m3'') w = (r1, w1)"
    by (cases "external (hf_embeddings env ''BAAI/bge-m3'') w")
  show ?thesis
  proof (cases r1)
    case (Inl e)
    with s1 show ?thesis by (simp add: RAGChatService_def bind_def)
  next
    case (Inr u)
    obtain r2 w2 where s2: "init_vectordb env cj cd w1 = (r2, w2)"
      by (cases "init_vectordb env cj cd w1")
    show ?thesis
    proof (cases r2)
      case (Inl e)
      with s1 Inr s2 show ?thesis by (simp add: RAGChatService_def bind_def)
    next
      case db: (Inr db)
      with s1 Inr s2 l show ?thesis by (simp add: RAGChatService_def bind_def raise_def)
    qed
  qed
qed

lemma unreadable_corpus_raises:
  assumes "hf_embeddings env ''BAAI/bge-m3'' (ext w) = (Inr (), x1)"
    and "os_path_exists env cd x1 = (Inr False, x2)"
    and "open_json_load env cj x2 = (Inl e, x3)"
  shows "RAGChatService env cj cd prov w = (Inl e, w\<lparr>ext := x3\<rparr>)"
  using assms
  by (simp add: RAGChatService_def init_vectordb_def bind_def external_def return_def)

lemma failed_initialize_step:
  assumes "uncaught st = None" and "str_strip env line \<noteq> []"
    and "json_loads env (str_strip env line) = Inr (JObj kvs)"
    and "map_of kvs (ascii ''command'') = Some (JStr (ascii ''initialize''))"
    and "RAGChatService env (dict_get kvs (ascii ''careers_json_path'') JNull)
           (dict_get kvs (ascii ''chroma_persist_dir'') JNull)
           (dict_get kvs (ascii ''provider'') (JStr (ascii ''google''))) (io_state st) = (Inl e, w')"
  shows "main_step env st line =
           st\<lparr>stdout := stdout st @ [error_response (str_exc e)], io_state := w'\<rparr>"
proof -
  from assms(4) have c: "dict_get kvs (ascii ''command'') JNull = JStr (ascii ''initialize'')"
    by (simp add: dict_get_def)
  have "dispatch env (rag_service st) (JObj kvs) (io_state st) = (Inl e, w')"
    by (simp add: dispatch_def c) (simp add: bind_def assms(5))
  with assms(3) have "process_line env (rag_service st) (str_strip env line) (io_state st) =
      (Inr (rag_service st, error_response (str_exc e)), w')"
    by (simp add: process_line_def try_except_def return_def)
  with assms(1,2) show ?thesis by (simp add: main_step_def Let_def)
qed

lemma openai_constructor:
  "RAGChatService openai_env JNull JNull (JStr (ascii ''openai'')) demo_world =
     (Inl (Raise ValueError (ascii ''Unknown provider: openai'')), demo_world)"
  by (simp add: RAGChatService_def init_vectordb_def init_llm_def bind_def external_def return_def
        raise_def openai_env_def demo_env_def json_to_docs_def bind_exc_def lift_def to_text_def
        demo_world_def ascii_def)

text \<open>
  Claim C9. When the constructor raises during an \<open>initialize\<close> command, the dispatcher
  prints one error response with the exception's text and \<open>rag_service\<close> keeps its
  value, an instance or \<open>None\<close>. The constructor does raise for every provider other
  than \<open>groq\<close> and \<open>google\<close>, and when the index has to be built and the corpus file
  cannot be read.
\<close>

theorem failed_initialize_keeps_service:
  "(uncaught st = None \<and> str_strip env line \<noteq> []
      \<and> json_loads env (str_strip env line) = Inr (JObj kvs)
      \<and> map_of kvs (ascii ''command'') = Some (JStr (ascii ''initialize''))
      \<and> RAGChatService env (dict_get kvs (ascii ''careers_json_path'') JNull)
           (dict_get kvs (ascii ''chroma_persist_dir'') JNull)
           (dict_get kvs (ascii ''provider'') (JStr (ascii ''google''))) (io_state st) = (Inl e, w')
      \<longrightarrow>
    main_step env st line =
      st\<lparr>stdout := stdout st @
             [JObj [(ascii ''status'', JStr (ascii ''error'')), (ascii ''message'', JStr (str_exc e))]],
         io_state := w'\<rparr>
    \<and> rag_service (main_step env st line) = rag_service st)
   \<and> (prov \<noteq> JStr (ascii ''groq'') \<and> prov \<noteq> JStr (ascii ''google'') \<longrightarrow>
        (\<exists>e' w''. RAGChatService env cj cd prov w = (Inl e', w'')))
   \<and> (hf_embeddings env ''BAAI/bge-m3'' (ext w) = (Inr (), x1)
        \<and> os_path_exists env cd x1 = (Inr False, x2)
        \<and> open_json_load env cj x2 = (Inl e2, x3) \<longrightarrow>
        RAGChatService env cj cd prov w = (Inl e2, w\<lparr>ext := x3\<rparr>))"
proof (intro conjI impI)
  assume a: "uncaught st = None \<and> str_strip env line \<noteq> []
      \<and> json_loads env (str_strip env line) = Inr (JObj kvs)
      \<and> map_of kvs (ascii ''command'') = Some (JStr (ascii ''initialize''))
      \<and> RAGChatService env (dict_get kvs (ascii ''careers_json_path'') JNull)
           (dict_get kvs (ascii ''chroma_persist_dir'') JNull)
           (dict_get kvs (ascii ''provider'') (JStr (ascii ''google''))) (io_state st) = (Inl e, w')"
  then have eq: "main_step env st line =
           st\<lparr>stdout := stdout st @ [error_response (str_exc e)], io_state := w'\<rparr>"
    using failed_initialize_step [of st env line kvs e w'] by blast
  then show "main_step env st line =
      st\<lparr>stdout := stdout st @
             [JObj [(ascii ''status'', JStr (ascii ''error'')), (ascii ''message'', JStr (str_exc e))]],
         io_state := w'\<rparr>"
    by (simp add: error_response_def)
  show "rag_service (main_step env st line) = rag_service st"
    unfolding eq by simp
next
  assume "prov \<noteq> JStr (ascii ''groq'') \<and> prov \<noteq> JStr (ascii ''google'')"
  then show "\<exists>e' w''. RAGChatService env cj cd prov w = (Inl e', w'')"
    using unknown_provider_raises by blast
next
  assume a: "hf_embeddings env ''BAAI/bge-m3'' (ext w) = (Inr (), x1)
        \<and> os_path_exists env cd x1 = (Inr False, x2)
        \<and> open_json_load env cj x2 = (Inl e2, x3)"
  from a have a1: "hf_embeddings env ''BAAI/bge-m3'' (ext w) = (Inr (), x1)" by simp
  from a have a2: "os_path_exists env cd x1 = (Inr False, x2)" by simp
  from a have a3: "open_json_load env cj x2 = (Inl e2, x3)" by simp
  show "RAGChatService env cj cd prov w = (Inl e2, w\<lparr>ext := x3\<rparr>)"
    by (rule unreadable_corpus_raises [OF a1 a2 a3])
qed

theorem failed_initialize_keeps_service_witness:
  "main_step openai_env serving_state (ascii ''initialize'') =
     serving_state\<lparr>stdout :=
        [JObj [(ascii ''status'', JStr (ascii ''error'')),
               (ascii ''message'', JStr (ascii ''Unknown provider: openai''))]]\<rparr>
   \<and> rag_service (main_step openai_env serving_state (ascii ''initialize'')) = Some demo_service
   \<and> main_step openai_env (initial_state 0) (ascii ''initialize'') =
     (initial_state 0)\<lparr>stdout :=
        [JObj [(ascii ''status'', JStr (ascii ''error'')),
               (ascii ''message'', JStr (ascii ''Unknown provider: openai''))]]\<rparr>"
proof -
  have e: "str_strip openai_env l = l"
    "json_loads openai_env l =
       Inr (JObj [(ascii ''command'', JStr l), (ascii ''provider'', JStr (ascii ''openai''))])" for l
    by (simp_all add: openai_env_def demo_env_def)
  have s: "uncaught serving_state = None" "io_state serving_state = demo_world"
    "stdout serving_state = []" "rag_service serving_state = Some demo_service"
    by (simp_all add: serving_state_def)
  have i: "uncaught (initial_state (0::nat)) = None" "io_state (initial_state (0::nat)) = demo_world"
    "stdout (initial_state (0::nat)) = []"
    by (simp_all add: initial_state_def demo_world_def)
  have 1: "main_step openai_env serving_state (ascii ''initialize'') =
     serving_state\<lparr>stdout :=
        [JObj [(ascii ''status'', JStr (ascii ''error'')),
               (ascii ''message'', JStr (ascii ''Unknown provider: openai''))]]\<rparr>
   \<and> rag_service (main_step openai_env serving_state (ascii ''initialize'')) = Some demo_service"
    using failed_initialize_keeps_service
      [where st = serving_state and env = openai_env and line = "ascii ''initialize''"
         and kvs = "[(ascii ''command'', JStr (ascii ''initialize'')),
                     (ascii ''provider'', JStr (ascii ''openai''))]"
         and e = "Raise ValueError (ascii ''Unknown provider: openai'')" and w' = demo_world]
      openai_constructor
    by (simp add: e s dict_get_def)
  have 2: "main_step openai_env (initial_state 0) (ascii ''initialize'') =
     (initial_state 0)\<lparr>stdout :=
        [JObj [(ascii ''status'', JStr (ascii ''error'')),
               (ascii ''message'', JStr (ascii ''Unknown provider: openai''))]]\<rparr>"
    using failed_initialize_keeps_service
      [where st = "initial_state 0" and env = openai_env and line = "ascii ''initialize''"
         and kvs = "[(ascii ''command'', JStr (ascii ''initialize'')),
                     (ascii ''provider'', JStr (ascii ''openai''))]"
         and e = "Raise ValueError (ascii ''Unknown provider: openai'')" and w' = demo_world]
      openai_constructor
    by (simp add: e i dict_get_def)
  from 1 2 show ?thesis by blast
qed

end
